theory Spec2Isabelle
  imports Complex_Main "HOL-Library.Sublist"
begin

section \<open>JavaScript values\<close>

text \<open>
  A JavaScript string is a sequence of UTF-16 code units; a code unit is modelled by its
  number. \<open>js\<close> turns an ASCII literal into such a string.
\<close>

type_synonym jsstring = "nat list"

definition js :: "string \<Rightarrow> jsstring" where
  "js s = map of_char s"

text \<open>
  A JavaScript number: a finite value (the doubles are rationals; \<open>-0\<close> and \<open>+0\<close>
  are both \<open>Fin 0\<close>, which no operation below tells apart), \<open>NaN\<close> or an infinity.
\<close>

datatype jsnum = Fin rat | NaN | PosInf | NegInf

datatype jsval =
    JUndefined
  | JNull
  | JBool bool
  | JNum jsnum
  | JStr jsstring
  | JArr "jsval list"
  | JObj "(jsstring \<times> jsval) list"

type_synonym jsobject = "(jsstring \<times> jsval) list"

text \<open>Property access \<open>obj.key\<close> on a plain object: a missing property reads as \<open>undefined\<close>.\<close>

definition get :: "jsobject \<Rightarrow> string \<Rightarrow> jsval" where
  "get obj key = (case map_of obj (js key) of None \<Rightarrow> JUndefined | Some v \<Rightarrow> v)"

text \<open>ToBoolean: the falsy values are \<open>undefined\<close>, \<open>null\<close>, \<open>false\<close>, \<open>0\<close>, \<open>NaN\<close> and \<open>''\<close>.\<close>

fun truthy :: "jsval \<Rightarrow> bool" where
  "truthy JUndefined = False"
| "truthy JNull = False"
| "truthy (JBool b) = b"
| "truthy (JNum (Fin r)) = (r \<noteq> 0)"
| "truthy (JNum NaN) = False"
| "truthy (JNum _) = True"
| "truthy (JStr s) = (s \<noteq> [])"
| "truthy (JArr _) = True"
| "truthy (JObj _) = True"

text \<open>The operators \<open>a || b\<close> and \<open>a ?? b\<close>.\<close>

definition js_or :: "jsval \<Rightarrow> jsval \<Rightarrow> jsval" where
  "js_or a b = (if truthy a then a else b)"

definition nullish :: "jsval \<Rightarrow> bool" where
  "nullish v = (v = JUndefined \<or> v = JNull)"

definition js_coalesce :: "jsval \<Rightarrow> jsval \<Rightarrow> jsval" where
  "js_coalesce a b = (if nullish a then b else a)"

section \<open>String primitives\<close>

text \<open>
  \<open>String.prototype.trim\<close> removes WhiteSpace and LineTerminator code units from both ends:
  TAB, LF, VT, FF, CR, SP, NBSP, U+1680, U+2000 to U+200A, U+2028, U+2029, U+202F, U+205F,
  U+3000 and U+FEFF.
\<close>

definition is_ws :: "nat \<Rightarrow> bool" where
  "is_ws c = (c \<in> {9, 10, 11, 12, 13, 32, 160, 5760, 8232, 8233, 8239, 8287, 12288, 65279}
              \<or> (8192 \<le> c \<and> c \<le> 8202))"

definition trim :: "jsstring \<Rightarrow> jsstring" where
  "trim s = rev (dropWhile is_ws (rev (dropWhile is_ws s)))"

text \<open>
  \<open>s.substring(0, m)\<close>: the end index is truncated to an integer and clamped into
  \<open>[0, s.length]\<close>; \<open>NaN\<close> counts as 0.
\<close>

definition substring0 :: "jsstring \<Rightarrow> jsnum \<Rightarrow> jsstring" where
  "substring0 s m =
     take (case m of Fin r \<Rightarrow> nat \<lfloor>r\<rfloor> | NaN \<Rightarrow> 0 | PosInf \<Rightarrow> length s | NegInf \<Rightarrow> 0) s"

text \<open>The code units used by the regular expressions of the service.\<close>

definition DQUOTE :: nat where "DQUOTE = 34"
definition SQUOTE :: nat where "SQUOTE = 39"
definition BACKSLASH :: nat where "BACKSLASH = 92"
definition NEWLINE :: nat where "NEWLINE = 10"
definition QMARK :: nat where "QMARK = 63"
definition DOT :: nat where "DOT = 46"
definition BANG :: nat where "BANG = 33"

text \<open>\<open>.replace(/\n{3,}/g, '\n\n')\<close>: scanning from the left, a maximal run of three or more
  line feeds is replaced by two; any other code unit is kept.\<close>

function collapse_newlines :: "jsstring \<Rightarrow> jsstring" where
  "collapse_newlines [] = []"
| "collapse_newlines (c # cs) =
     (if c = NEWLINE \<and> 3 \<le> length (takeWhile (\<lambda>x. x = NEWLINE) (c # cs))
      then NEWLINE # NEWLINE # collapse_newlines (dropWhile (\<lambda>x. x = NEWLINE) cs)
      else c # collapse_newlines cs)"
  by pat_completeness auto
termination
  by (relation "measure length") (auto intro: le_imp_less_Suc length_dropWhile_le)

section \<open>Errors\<close>

text \<open>The failure a provider call rejects with: the SDK's error object, of which the
  service reads \<open>status\<close> and \<open>message\<close>.\<close>

record provider_error =
  status :: jsval
  message :: jsstring

text \<open>
  Modelled from the spec: the error classes \<open>ValidationError(message, details)\<close> and
  \<open>AIServiceError(message, originalError)\<close> of middleware/errorHandler, whose source is not
  available. An error carries a human-readable message and either a field-level
  detail map or the wrapped original failure (absent when the constructor gets no second
  argument). \<open>TypeError\<close> is the runtime's error for a property read or method call on a
  value that does not have it.
\<close>

datatype app_error =
    ValidationError jsstring "(string \<times> jsstring) list"
  | AIServiceError jsstring "provider_error option"
  | TypeError
  | OtherError jsstring

section \<open>Sanitizing text for a prompt (services/aiService.js)\<close>

text \<open>
  \<open>maxLength\<close> is \<open>None\<close> when the argument is omitted; the default is 2000.
  \<open>sanitize_chain\<close> is the method chain applied to a string: \<open>substring\<close>, the two
  \<open>replace\<close> calls on quotes and backslashes, the collapse of line feeds and \<open>trim\<close>. A
  truthy value that is not a string has no \<open>substring\<close> method.
\<close>

definition sanitize_chain :: "jsstring \<Rightarrow> jsnum \<Rightarrow> jsstring" where
  "sanitize_chain s m =
     trim (collapse_newlines (filter (\<lambda>c. c \<noteq> BACKSLASH)
       (map (\<lambda>c. if c = DQUOTE then SQUOTE else c) (substring0 s m))))"

definition sanitizeForPrompt :: "jsval \<Rightarrow> jsnum option \<Rightarrow> app_error + jsstring" where
  "sanitizeForPrompt text maxLength =
     (let maxLength = (case maxLength of None \<Rightarrow> Fin 2000 | Some m \<Rightarrow> m) in
      if \<not> truthy text then Inr []
      else case text of
        JStr s \<Rightarrow> Inr (sanitize_chain s maxLength)
      | _ \<Rightarrow> Inl TypeError)"

section \<open>Generation configuration (services/aiService.js)\<close>

record generation_config =
  temperature :: jsval
  maxOutputTokens :: jsval
  topP :: jsval
  topK :: jsval
  systemInstruction :: "jsval option"

definition DEFAULT_CONFIG :: generation_config where
  "DEFAULT_CONFIG = \<lparr> temperature = JNum (Fin (7 / 10)), maxOutputTokens = JNum (Fin 2048),
     topP = JNum (Fin (95 / 100)), topK = JNum (Fin 40), systemInstruction = None \<rparr>"

definition buildGenerationConfig :: "jsobject \<Rightarrow> generation_config" where
  "buildGenerationConfig options =
     (let config = \<lparr>
            temperature = js_or (get options ''temperature'') (temperature DEFAULT_CONFIG),
            maxOutputTokens = js_or (get options ''maxOutputTokens'') (maxOutputTokens DEFAULT_CONFIG),
            topP = js_coalesce (get options ''topP'') (topP DEFAULT_CONFIG),
            topK = js_coalesce (get options ''topK'') (topK DEFAULT_CONFIG),
            systemInstruction = None \<rparr>
      in if truthy (get options ''systemInstruction'')
         then config\<lparr> systemInstruction := Some (get options ''systemInstruction'') \<rparr>
         else config)"

section \<open>Calling the provider (services/aiService.js)\<close>

text \<open>
  What the provider's \<open>generateContent\<close> resolves with. \<open>resp_text\<close> is \<open>response.text\<close>,
  which the SDK leaves undefined (\<open>None\<close>) when the answer has no text part;
  \<open>finishReason\<close> and \<open>safetyRatings\<close> stand for the reads
  \<open>response.candidates?.[0]?.finishReason\<close> and \<open>response.candidates?.[0]?.safetyRatings\<close>.
\<close>

record provider_response =
  resp_text :: "jsstring option"
  finishReason :: jsval
  safetyRatings :: jsval
  usageMetadata :: jsval

definition RATE_LIMIT_MESSAGE :: jsstring where
  "RATE_LIMIT_MESSAGE = js ''AI service rate limit exceeded. Please, try again later.''"

definition BAD_REQUEST_PREFIX :: jsstring where
  "BAD_REQUEST_PREFIX = js ''Invalid request to AI service''"

definition AUTH_FAILED_MESSAGE :: jsstring where
  "AUTH_FAILED_MESSAGE = js ''AI Service authentication failed. Check API key configuration.''"

definition UNAVAILABLE_PREFIX :: jsstring where
  "UNAVAILABLE_PREFIX = js ''AI Service temporarily unavailable''"

text \<open>
  \<open>callGeminiAPI(apiCall)\<close>. The argument is the outcome of running the thunk \<open>apiCall\<close>,
  that is of the provider's single call: \<open>Inr\<close> the response it resolves with, \<open>Inl\<close> the
  error it rejects with. The second argument and the second component of the result count
  the provider calls made so far. The instructions rendered for the provider are not part
  of the model.
\<close>

definition callGeminiAPI ::
  "provider_error + provider_response \<Rightarrow> nat \<Rightarrow> (app_error + provider_response) \<times> nat" where
  "callGeminiAPI apiCall calls =
     (case apiCall of
        Inr response \<Rightarrow> (Inr response, Suc calls)
      | Inl error \<Rightarrow>
          (if status error = JNum (Fin 429)
           then Inl (AIServiceError RATE_LIMIT_MESSAGE (Some error))
           else if status error = JNum (Fin 400)
           then Inl (AIServiceError (BAD_REQUEST_PREFIX @ message error) None)
           else if status error = JNum (Fin 401) \<or> status error = JNum (Fin 403)
           then Inl (AIServiceError AUTH_FAILED_MESSAGE (Some error))
           else Inl (AIServiceError (UNAVAILABLE_PREFIX @ message error) (Some error)),
           Suc calls))"

text \<open>
  The error taxonomy of the specification. The service raises one class, \<open>AIServiceError\<close>,
  at four places that differ in their message; \<open>error_kind\<close> names the place an error was
  raised at by that message, and \<open>kind_of_status\<close> is the classification the specification
  words: rate limit, malformed request, authentication or authorization failure, anything
  else.
\<close>

datatype kind =
  Validation | ProviderRateLimited | ProviderBadRequest | ProviderAuthFailed | ProviderUnavailable

definition error_kind :: "app_error \<Rightarrow> kind option" where
  "error_kind e =
     (case e of
        ValidationError _ _ \<Rightarrow> Some Validation
      | AIServiceError m _ \<Rightarrow>
          (if m = RATE_LIMIT_MESSAGE then Some ProviderRateLimited
           else if m = AUTH_FAILED_MESSAGE then Some ProviderAuthFailed
           else if prefix BAD_REQUEST_PREFIX m then Some ProviderBadRequest
           else if prefix UNAVAILABLE_PREFIX m then Some ProviderUnavailable
           else None)
      | _ \<Rightarrow> None)"

definition kind_of_status :: "jsval \<Rightarrow> kind" where
  "kind_of_status st =
     (if st = JNum (Fin 429) then ProviderRateLimited
      else if st = JNum (Fin 400) then ProviderBadRequest
      else if st = JNum (Fin 401) \<or> st = JNum (Fin 403) then ProviderAuthFailed
      else ProviderUnavailable)"

section \<open>Free-form generation (services/aiService.js)\<close>

definition validatePrompt :: "jsval \<Rightarrow> app_error option" where
  "validatePrompt prompt =
     (case prompt of
        JStr s \<Rightarrow>
          (if length (trim s) = 0
           then Some (ValidationError (js ''Prompt cannot be empty'')
                  [(''prompt'', js ''Prompt must contain text'')])
           else None)
      | _ \<Rightarrow> Some (ValidationError (js ''Prompt is required and must be a string'')
                  [(''prompt'', js ''A valid text prompt is required'')]))"

definition formatResponse :: "provider_response \<Rightarrow> jsobject" where
  "formatResponse response =
     [(js ''text'', js_or (case resp_text response of None \<Rightarrow> JUndefined | Some t \<Rightarrow> JStr t) (JStr [])),
      (js ''metadata'', JObj [(js ''finishReason'', finishReason response),
                             (js ''safetyRatings'', safetyRatings response),
                             (js ''usageMetadata'', usageMetadata response)])]"

definition generateContent ::
  "jsval \<Rightarrow> jsobject \<Rightarrow> provider_error + provider_response \<Rightarrow> nat \<Rightarrow> (app_error + jsobject) \<times> nat" where
  "generateContent prompt options apiCall calls =
     (case validatePrompt prompt of
        Some e \<Rightarrow> (Inl e, calls)
      | None \<Rightarrow>
          (let config = buildGenerationConfig options in
           case callGeminiAPI apiCall calls of
             (Inl e, calls') \<Rightarrow> (Inl e, calls')
           | (Inr response, calls') \<Rightarrow> (Inr (formatResponse response), calls')))"

section \<open>Conversion of values to strings\<close>

text \<open>
  A value of the parsed query string: a string, an array or a nested object.
\<close>

datatype qval = QStr jsstring | QArr "qval list" | QObj "(jsstring \<times> qval) list"

fun join_comma :: "jsstring list \<Rightarrow> jsstring" where
  "join_comma [] = []"
| "join_comma [x] = x"
| "join_comma (x # y # ys) = x @ 44 # join_comma (y # ys)"

text \<open>
  \<open>ToString\<close> of a query value, \<open>None\<close> when it throws a TypeError. An array is joined with
  commas, each element converted in turn. An object is converted by its \<open>toString\<close>: the
  inherited one prints \<open>[object Object]\<close>; an own property of that name is a query value,
  which cannot be called, and the inherited \<open>valueOf\<close> tried next returns the object
  itself, so the conversion throws.
\<close>

fun ToString :: "qval \<Rightarrow> jsstring option"
  and ToStrings :: "qval list \<Rightarrow> jsstring list option" where
  "ToString (QStr s) = Some s"
| "ToString (QArr xs) = (case ToStrings xs of None \<Rightarrow> None | Some ss \<Rightarrow> Some (join_comma ss))"
| "ToString (QObj obj) =
     (if js ''toString'' \<in> set (map fst obj) then None else Some (js ''[object Object]''))"
| "ToStrings [] = Some []"
| "ToStrings (x # xs) =
     (case ToString x of
        None \<Rightarrow> None
      | Some s \<Rightarrow> (case ToStrings xs of None \<Rightarrow> None | Some ss \<Rightarrow> Some (s # ss)))"

text \<open>
  A template literal \<open>`... ${v} ...`\<close> guarded by \<open>v ? ... : ''\<close>, and a property key
  \<open>obj[v]\<close>, for an optional query value: \<open>Some TypeError\<close> when the conversion of \<open>v\<close> to
  a string throws, \<open>None\<close> when the expression has a value. An absent value is
  \<open>undefined\<close>, which is falsy and, as a key, the text \<open>undefined\<close>.
\<close>

fun truthy_q :: "qval \<Rightarrow> bool" where
  "truthy_q (QStr s) = (s \<noteq> [])"
| "truthy_q _ = True"

definition template_q :: "qval option \<Rightarrow> app_error option" where
  "template_q v =
     (case v of
        None \<Rightarrow> None
      | Some q \<Rightarrow> if truthy_q q \<and> ToString q = None then Some TypeError else None)"

definition key_q :: "qval option \<Rightarrow> app_error option" where
  "key_q v =
     (case v of
        None \<Rightarrow> None
      | Some q \<Rightarrow> if ToString q = None then Some TypeError else None)"

text \<open>
  The same conversion for a JSON value (a stored letter, the authenticated user), as a
  template literal, a comparison with a number or the argument of \<open>new Date\<close> performs
  it: it throws exactly when it meets an object with an own \<open>toString\<close> property.
  \<open>null\<close> and \<open>undefined\<close> elements of an array are joined as empty strings.
\<close>

fun to_primitive_throws :: "jsval \<Rightarrow> bool" where
  "to_primitive_throws (JObj obj) = (js ''toString'' \<in> set (map fst obj))"
| "to_primitive_throws (JArr xs) = list_ex to_primitive_throws xs"
| "to_primitive_throws _ = False"

definition template_v :: "jsval \<Rightarrow> app_error option" where
  "template_v v = (if truthy v \<and> to_primitive_throws v then Some TypeError else None)"

text \<open>The first error, in the order of evaluation, of a sequence of steps.\<close>

definition first_raised :: "app_error option list \<Rightarrow> app_error option" where
  "first_raised steps = (case List.map_filter id steps of [] \<Rightarrow> None | e # _ \<Rightarrow> Some e)"

section \<open>Decoding the structured answer\<close>

text \<open>
  \<open>JSON.parse\<close> is the runtime's; its behaviour on strings is the parameter \<open>decode\<close>
  (\<open>None\<close> when it throws a SyntaxError). Applied to \<open>undefined\<close> it parses the text
  \<open>undefined\<close>, which is not JSON, and throws. \<open>destructure\<close> is the pattern
  \<open>const { key } = value\<close>, and equally the read \<open>value.key\<close>: a TypeError (\<open>None\<close>) on
  \<open>null\<close> and \<open>undefined\<close>; a value that is not an object has no property of the names
  used here.
\<close>

definition JSON_parse :: "(jsstring \<Rightarrow> jsval option) \<Rightarrow> jsstring option \<Rightarrow> jsval option" where
  "JSON_parse decode text = (case text of None \<Rightarrow> None | Some s \<Rightarrow> decode s)"

fun destructure :: "jsval \<Rightarrow> string \<Rightarrow> jsval option" where
  "destructure JUndefined key = None"
| "destructure JNull key = None"
| "destructure (JObj obj) key = Some (get obj key)"
| "destructure _ key = Some JUndefined"

definition parsed_metadata :: "provider_response \<Rightarrow> jsval" where
  "parsed_metadata response =
     JObj [(js ''finishReason'', finishReason response),
           (js ''usageMetadata'', usageMetadata response)]"

definition fallback_metadata :: jsval where
  "fallback_metadata = JObj [(js ''parseError'', JBool True)]"

section \<open>Reflection prompts (services/aiService.js)\<close>

definition is_letter :: "nat \<Rightarrow> bool" where
  "is_letter c = ((65 \<le> c \<and> c \<le> 90) \<or> (97 \<le> c \<and> c \<le> 122))"

definition is_terminator :: "nat \<Rightarrow> bool" where
  "is_terminator c = (c = DOT \<or> c = BANG \<or> c = QMARK)"

text \<open>
  \<open>text.match(/[^.!?]*\?/)\<close>. At a start position the star first takes the longest run of
  code units other than \<open>.\<close>, \<open>!\<close>, \<open>?\<close> and then gives them back one by one until a \<open>?\<close>
  follows (\<open>try_star\<close>); the search moves to the next start position when none does.
\<close>

fun try_star :: "nat \<Rightarrow> jsstring \<Rightarrow> jsstring option" where
  "try_star 0 s = (if take 1 s = [QMARK] then Some (take 1 s) else None)"
| "try_star (Suc k) s =
     (if take 1 (drop (Suc k) s) = [QMARK] then Some (take (Suc (Suc k)) s) else try_star k s)"

definition match_here :: "jsstring \<Rightarrow> jsstring option" where
  "match_here s = try_star (length (takeWhile (\<lambda>c. \<not> is_terminator c) s)) s"

fun match_question :: "jsstring \<Rightarrow> jsstring option" where
  "match_question [] = match_here []"
| "match_question (c # cs) =
     (case match_here (c # cs) of Some m \<Rightarrow> Some m | None \<Rightarrow> match_question cs)"

definition DEFAULT_QUESTION :: jsstring where
  "DEFAULT_QUESTION = js ''How do you feel reading this letter now?''"

definition extractQuestionFromText :: "jsstring option \<Rightarrow> jsstring" where
  "extractQuestionFromText text =
     (case text of
        None \<Rightarrow> DEFAULT_QUESTION
      | Some t \<Rightarrow>
          if t = [] then DEFAULT_QUESTION
          else (case match_question t of
                  Some questionMatch \<Rightarrow>
                    trim (filter (\<lambda>c. c \<noteq> DQUOTE \<and> c \<noteq> SQUOTE)
                      (dropWhile (\<lambda>c. \<not> is_letter c) questionMatch))
                | None \<Rightarrow> DEFAULT_QUESTION))"

text \<open>
  The stored letter, as the service and the controller read it.
\<close>

record letter =
  letter_id :: jsval
  content :: jsval
  isDelivered :: jsval
  letter_title :: jsval
  letter_mood :: jsval
  letter_goals :: jsval
  letter_createdAt :: jsval

text \<open>
  The helpers that render the instructions for the provider. The text they produce is not
  modelled (\<open>getTimeSinceWritten\<close> reads the clock); what is modelled is whether they
  return: \<open>None\<close> when they do, \<open>Some\<close> the error when they throw.
  \<^item> \<open>getTimeSinceWritten\<close> passes a truthy \<open>createdAt\<close> to \<open>new Date\<close>.
  \<^item> \<open>formatGoalsForPrompt\<close> returns at once for falsy goals and for a \<open>length\<close> of 0;
    otherwise it calls \<open>goals.map\<close>, which only an array has, and for each goal reads
    \<open>g.status\<close> and \<open>g.text\<close> and interpolates the text and a status other than
    \<open>pending\<close>.
  \<^item> \<open>extractThemes\<close> calls \<open>content.toLowerCase()\<close>, which only a string has.
\<close>

definition getTimeSinceWritten :: "jsval \<Rightarrow> app_error option" where
  "getTimeSinceWritten createdAt =
     (if \<not> truthy createdAt then None
      else if to_primitive_throws createdAt then Some TypeError else None)"

definition js_length :: "jsval \<Rightarrow> jsval" where
  "js_length v =
     (case v of
        JArr xs \<Rightarrow> JNum (Fin (of_nat (length xs)))
      | JStr s \<Rightarrow> JNum (Fin (of_nat (length s)))
      | JObj obj \<Rightarrow> get obj ''length''
      | _ \<Rightarrow> JUndefined)"

definition goal_throws :: "jsval \<Rightarrow> bool" where
  "goal_throws g =
     (case destructure g ''status'' of
        None \<Rightarrow> True
      | Some st \<Rightarrow>
          if st \<noteq> JStr (js ''pending'') \<and> to_primitive_throws st then True
          else (case destructure g ''text'' of
                  None \<Rightarrow> True
                | Some tx \<Rightarrow> to_primitive_throws tx))"

definition formatGoalsForPrompt :: "jsval \<Rightarrow> app_error option" where
  "formatGoalsForPrompt goals =
     (if \<not> truthy goals then None
      else if js_length goals = JNum (Fin 0) then None
      else case goals of
        JArr gs \<Rightarrow> if list_ex goal_throws gs then Some TypeError else None
      | _ \<Rightarrow> Some TypeError)"

definition extractThemes :: "jsval \<Rightarrow> app_error option" where
  "extractThemes content' =
     (if \<not> truthy content' then None
      else case content' of JStr s \<Rightarrow> None | _ \<Rightarrow> Some TypeError)"

text \<open>The rendering done by \<open>generateReflectionPrompt\<close> before it calls the provider.\<close>

definition reflectionInstructions :: "letter \<Rightarrow> app_error option" where
  "reflectionInstructions letter =
     first_raised
       [getTimeSinceWritten (letter_createdAt letter),
        formatGoalsForPrompt (letter_goals letter),
        template_v (letter_mood letter),
        (case sanitizeForPrompt (js_or (letter_title letter) (JStr (js ''Untitled''))) (Some (Fin 100)) of
           Inl e \<Rightarrow> Some e | Inr sanitizedTitle \<Rightarrow> None),
        extractThemes (content letter)]"

definition generateReflectionPrompt ::
  "(jsstring \<Rightarrow> jsval option) \<Rightarrow> letter option \<Rightarrow> provider_error + provider_response \<Rightarrow> nat
     \<Rightarrow> (app_error + jsobject) \<times> nat" where
  "generateReflectionPrompt decode letter apiCall calls =
     (case (case letter of None \<Rightarrow> None | Some l \<Rightarrow> if truthy (content l) then Some l else None) of
        None \<Rightarrow>
          (Inl (ValidationError (js ''Letter content is required to generate a reflection prompt'')
                  [(''letter'', js ''A valid letter with content is required'')]), calls)
      | Some l \<Rightarrow>
          (case reflectionInstructions l of
             Some e \<Rightarrow> (Inl e, calls)
           | None \<Rightarrow>
               (case callGeminiAPI apiCall calls of
                  (Inl e, calls') \<Rightarrow> (Inl e, calls')
                | (Inr response, calls') \<Rightarrow>
                    (case (case JSON_parse decode (resp_text response) of
                             None \<Rightarrow> None | Some v \<Rightarrow> destructure v ''question'') of
                       Some question \<Rightarrow>
                         (Inr [(js ''prompt'', question),
                               (js ''metadata'', parsed_metadata response)], calls')
                     | None \<Rightarrow>
                         (Inr [(js ''prompt'', JStr (extractQuestionFromText (resp_text response))),
                               (js ''metadata'', fallback_metadata)], calls')))))"

section \<open>Writing prompts (services/aiService.js)\<close>

text \<open>\<open>text.split('\n')\<close>: the pieces between line feeds; the empty string gives one empty piece.\<close>

fun split_lines :: "jsstring \<Rightarrow> jsstring list" where
  "split_lines [] = [[]]"
| "split_lines (c # cs) =
     (if c = NEWLINE then [] # split_lines cs
      else case split_lines cs of l # ls \<Rightarrow> (c # l) # ls | [] \<Rightarrow> [[c]])"

text \<open>\<open>xs.slice(0, n)\<close> for an integer \<open>n\<close>: a negative end counts from the end of the array.\<close>

definition slice0 :: "'a list \<Rightarrow> int \<Rightarrow> 'a list" where
  "slice0 xs n = (if n < 0 then take (nat (int (length xs) + n)) xs else take (nat n) xs)"

text \<open>
  The rendering done by \<open>generateWritingPrompts\<close> before it calls the provider: \<open>mood\<close> and
  \<open>theme\<close> are interpolated when truthy; the count is a number.
\<close>

definition writingPromptsInstructions :: "qval option \<Rightarrow> qval option \<Rightarrow> app_error option" where
  "writingPromptsInstructions mood theme = first_raised [template_q mood, template_q theme]"

text \<open>\<open>count\<close> is \<open>None\<close> when the options carry none; the default is 3.\<close>

definition generateWritingPrompts ::
  "(jsstring \<Rightarrow> jsval option) \<Rightarrow> qval option \<Rightarrow> qval option \<Rightarrow> int option
     \<Rightarrow> provider_error + provider_response \<Rightarrow> nat \<Rightarrow> (app_error + jsobject) \<times> nat" where
  "generateWritingPrompts decode mood theme count apiCall calls =
     (let count = (case count of None \<Rightarrow> 3 | Some n \<Rightarrow> n) in
      case writingPromptsInstructions mood theme of
        Some e \<Rightarrow> (Inl e, calls)
      | None \<Rightarrow>
          (case callGeminiAPI apiCall calls of
             (Inl e, calls') \<Rightarrow> (Inl e, calls')
           | (Inr response, calls') \<Rightarrow>
               (case (case JSON_parse decode (resp_text response) of
                        None \<Rightarrow> None | Some v \<Rightarrow> destructure v ''prompts'') of
                  Some prompts \<Rightarrow>
                    (Inr [(js ''prompts'', prompts),
                          (js ''metadata'', parsed_metadata response)], calls')
                | None \<Rightarrow>
                    (case resp_text response of
                       None \<Rightarrow> (Inl TypeError, calls')
                     | Some t \<Rightarrow>
                         (let prompts = filter (\<lambda>p. length p > 5) (map trim (split_lines t)) in
                          (Inr [(js ''prompts'', JArr (map JStr (slice0 prompts count))),
                                (js ''metadata'', fallback_metadata)], calls'))))))"

section \<open>Affirmations (services/aiService.js)\<close>

text \<open>
  \<open>getTimeBasedGreeting\<close> looks \<open>timeOfDay\<close> up as a key of the table of greetings;
  \<open>formatStatsForAffirmation\<close> returns at once for falsy stats and otherwise compares the
  three counters with 0 and interpolates the positive ones.
\<close>

definition getTimeBasedGreeting :: "qval option \<Rightarrow> app_error option" where
  "getTimeBasedGreeting timeOfDay = key_q timeOfDay"

definition formatStatsForAffirmation :: "jsval \<Rightarrow> app_error option" where
  "formatStatsForAffirmation stats =
     (if \<not> truthy stats then None
      else case stats of
        JObj obj \<Rightarrow>
          if to_primitive_throws (get obj ''currentStreak'')
             \<or> to_primitive_throws (get obj ''totalLetters'')
             \<or> to_primitive_throws (get obj ''goalsAccomplished'')
          then Some TypeError else None
      | _ \<Rightarrow> None)"

definition affirmationInstructions :: "jsval \<Rightarrow> qval option \<Rightarrow> jsval \<Rightarrow> app_error option" where
  "affirmationInstructions username timeOfDay stats =
     first_raised
       [getTimeBasedGreeting timeOfDay, template_v username, formatStatsForAffirmation stats]"

definition generateAffirmation ::
  "(jsstring \<Rightarrow> jsval option) \<Rightarrow> jsval \<Rightarrow> qval option \<Rightarrow> jsval
     \<Rightarrow> provider_error + provider_response \<Rightarrow> nat \<Rightarrow> (app_error + jsobject) \<times> nat" where
  "generateAffirmation decode username timeOfDay stats apiCall calls =
     (case affirmationInstructions username timeOfDay stats of
        Some e \<Rightarrow> (Inl e, calls)
      | None \<Rightarrow>
          (case callGeminiAPI apiCall calls of
             (Inl e, calls') \<Rightarrow> (Inl e, calls')
           | (Inr response, calls') \<Rightarrow>
               (case (case JSON_parse decode (resp_text response) of
                        None \<Rightarrow> None | Some v \<Rightarrow> destructure v ''affirmation'') of
                  Some affirmation \<Rightarrow>
                    (Inr [(js ''affirmation'', affirmation),
                          (js ''metadata'', parsed_metadata response)], calls')
                | None \<Rightarrow>
                    (case resp_text response of
                       None \<Rightarrow> (Inl TypeError, calls')
                     | Some t \<Rightarrow>
                         (Inr [(js ''affirmation'', JStr (trim t)),
                               (js ''metadata'', fallback_metadata)], calls')))))"

section \<open>The controller (controllers/ai)\<close>

text \<open>
  The handlers, without the HTTP response object: a handler returns the JSON body it sends
  with status 200, or the error it hands to the error middleware. \<open>getLetterById\<close> is the
  letter service's, which fails or yields the stored letter; \<open>user\<close> is the authenticated
  user the token middleware attached to the request.
\<close>

definition generate ::
  "jsobject \<Rightarrow> provider_error + provider_response \<Rightarrow> nat \<Rightarrow> (app_error + jsobject) \<times> nat" where
  "generate body apiCall calls =
     (case generateContent (get body ''prompt'')
             [(js ''systemInstruction'', get body ''systemInstruction''),
              (js ''model'', get body ''model''),
              (js ''temperature'', get body ''temperature''),
              (js ''maxOutputTokens'', get body ''maxOutputTokens'')] apiCall calls of
        (Inl e, calls') \<Rightarrow> (Inl e, calls')
      | (Inr response, calls') \<Rightarrow>
          (Inr [(js ''success'', JBool True), (js ''data'', JObj response)], calls'))"

definition getReflectionPrompt ::
  "(jsval \<Rightarrow> jsval \<Rightarrow> app_error + letter) \<Rightarrow> (jsstring \<Rightarrow> jsval option) \<Rightarrow> jsval \<Rightarrow> jsobject
     \<Rightarrow> provider_error + provider_response \<Rightarrow> nat \<Rightarrow> (app_error + jsobject) \<times> nat" where
  "getReflectionPrompt getLetterById decode userId body apiCall calls =
     (let letterId = get body ''letterId'' in
      if \<not> truthy letterId
      then (Inl (ValidationError (js ''Letter ID is required'')
                  [(''letterId'', js ''Please provide the letter ID'')]), calls)
      else case getLetterById userId letterId of
        Inl e \<Rightarrow> (Inl e, calls)
      | Inr letter \<Rightarrow>
          if \<not> truthy (isDelivered letter)
          then (Inl (ValidationError (js ''Reflection prompts are only available for delivered letters'')
                      [(''letterId'', js ''This letter has not been delivered yet'')]), calls)
          else (case generateReflectionPrompt decode (Some letter) apiCall calls of
                  (Inl e, calls') \<Rightarrow> (Inl e, calls')
                | (Inr response, calls') \<Rightarrow>
                    (Inr [(js ''success'', JBool True),
                          (js ''data'', JObj [(js ''prompt'', get response ''prompt''),
                                             (js ''letterId'', letter_id letter)])], calls')))"

text \<open>
  \<open>parseInt(string, 10)\<close>: leading white space is skipped, an optional sign is read, and the
  longest run of decimal digits that follows is the number; with no digit the result is
  \<open>NaN\<close> (\<open>None\<close>). The result is a double; the integer it rounds is kept here, which agrees
  with it on being zero and on the comparisons with 1 and 5 made below.
\<close>

definition is_digit :: "nat \<Rightarrow> bool" where
  "is_digit c = (48 \<le> c \<and> c \<le> 57)"

definition digits_value :: "jsstring \<Rightarrow> int" where
  "digits_value Z = foldl (\<lambda>acc c. 10 * acc + int (c - 48)) 0 Z"

definition parseInt :: "jsstring \<Rightarrow> int option" where
  "parseInt inputString =
     (let S = dropWhile is_ws inputString;
          sign = (if take 1 S = [45] then - 1 else 1);
          S = (if take 1 S = [43] \<or> take 1 S = [45] then drop 1 S else S);
          Z = takeWhile is_digit S
      in if Z = [] then None else Some (sign * digits_value Z))"

text \<open>
  The count \<open>getWritingPrompts\<close> computes from the raw query parameter (lines 84 to 86):
  \<open>parseInt\<close> converts its argument to a string first, which can throw; an absent
  parameter is \<open>undefined\<close>, read as the text \<open>undefined\<close>.
\<close>

definition promptCount :: "qval option \<Rightarrow> app_error + int" where
  "promptCount count =
     (case (case count of None \<Rightarrow> Some (js ''undefined'') | Some v \<Rightarrow> ToString v) of
        None \<Rightarrow> Inl TypeError
      | Some inputString \<Rightarrow>
          (let promptCount = (case parseInt inputString of
                                None \<Rightarrow> 3 | Some n \<Rightarrow> if n = 0 then 3 else n);
               promptCount = (if promptCount < 1 then 1 else promptCount);
               promptCount = (if promptCount > 5 then 5 else promptCount)
           in Inr promptCount))"

definition writingPromptsBody :: "jsobject \<Rightarrow> jsobject" where
  "writingPromptsBody response =
     [(js ''success'', JBool True),
      (js ''data'', JObj [(js ''prompts'', get response ''prompts'')])]"

definition getWritingPrompts ::
  "(jsstring \<Rightarrow> jsval option) \<Rightarrow> qval option \<Rightarrow> qval option \<Rightarrow> qval option
     \<Rightarrow> provider_error + provider_response \<Rightarrow> nat \<Rightarrow> (app_error + jsobject) \<times> nat" where
  "getWritingPrompts decode mood theme count apiCall calls =
     (case promptCount count of
        Inl e \<Rightarrow> (Inl e, calls)
      | Inr n \<Rightarrow>
          (case generateWritingPrompts decode mood theme (Some n) apiCall calls of
             (Inl e, calls') \<Rightarrow> (Inl e, calls')
           | (Inr response, calls') \<Rightarrow> (Inr (writingPromptsBody response), calls')))"

definition getAffirmation ::
  "(jsstring \<Rightarrow> jsval option) \<Rightarrow> jsobject \<Rightarrow> qval option
     \<Rightarrow> provider_error + provider_response \<Rightarrow> nat \<Rightarrow> (app_error + jsobject) \<times> nat" where
  "getAffirmation decode user timeOfDay apiCall calls =
     (let username = js_or (get user ''name'') (get user ''username'');
          stats = get user ''stats''
      in case generateAffirmation decode username timeOfDay stats apiCall calls of
           (Inl e, calls') \<Rightarrow> (Inl e, calls')
         | (Inr response, calls') \<Rightarrow>
             (Inr [(js ''success'', JBool True),
                   (js ''data'', JObj [(js ''affirmation'', get response ''affirmation'')])],
              calls'))"

section \<open>Auxiliary notions for the proofs\<close>

text \<open>Three line feeds in a row somewhere in a string.\<close>

fun triple :: "jsstring \<Rightarrow> bool" where
  "triple (a # b # c # r) = ((a = NEWLINE \<and> b = NEWLINE \<and> c = NEWLINE) \<or> triple (b # c # r))"
| "triple _ = False"

text \<open>
  The specification's reading of the match of \<open>extractQuestionFromText\<close>, in its words
  ``the first substring ending in \<open>?\<close>'': the text before the first \<open>?\<close>, from after the
  last \<open>.\<close> or \<open>!\<close> in it, together with that \<open>?\<close>.
\<close>

definition first_question :: "jsstring \<Rightarrow> jsstring" where
  "first_question t =
     rev (takeWhile (\<lambda>c. c \<noteq> DOT \<and> c \<noteq> BANG) (rev (takeWhile (\<lambda>c. c \<noteq> QMARK) t))) @ [QMARK]"

text \<open>
  The claim's notion of a numeric raw count, read generously: white space at both ends
  and a sign apart, a decimal numeral, that is digits with at most one point among them.
\<close>

definition is_numeric :: "jsstring \<Rightarrow> bool" where
  "is_numeric s =
     (let t = trim s;
          u = (if take 1 t = [43] \<or> take 1 t = [45] then drop 1 t else t)
      in list_ex is_digit u \<and> list_all (\<lambda>c. is_digit c \<or> c = DOT) u
         \<and> length (filter (\<lambda>c. c = DOT) u) \<le> 1)"

section \<open>Merging sampling overrides\<close>

text \<open>
  Claim C4. The merged configuration should carry the caller's value of each sampling field
  that is present and not null, the value 0 included. \<open>buildGenerationConfig\<close> merges
  \<open>topP\<close> and \<open>topK\<close> with \<open>??\<close> but \<open>temperature\<close> and \<open>maxOutputTokens\<close> with \<open>||\<close>:
  an override of 0 for either of the latter is falsy and is replaced by the default.
\<close>

theorem buildGenerationConfig_zero_override:
  "temperature (buildGenerationConfig [(js ''temperature'', JNum (Fin 0))]) = JNum (Fin (7 / 10))
   \<and> maxOutputTokens (buildGenerationConfig [(js ''maxOutputTokens'', JNum (Fin 0))]) = JNum (Fin 2048)
   \<and> topP (buildGenerationConfig [(js ''topP'', JNum (Fin 0))]) = JNum (Fin 0)
   \<and> topK (buildGenerationConfig [(js ''topK'', JNum (Fin 0))]) = JNum (Fin 0)"
  by (simp add: buildGenerationConfig_def DEFAULT_CONFIG_def get_def js_or_def js_coalesce_def
      nullish_def js_def Let_def)

section \<open>Facts about the string primitives\<close>

lemma dropWhile_hd_id: "xs = [] \<or> \<not> P (hd xs) \<Longrightarrow> dropWhile P xs = xs"
  by (cases xs) auto

lemma last_dropWhile_ne: "dropWhile P xs \<noteq> [] \<Longrightarrow> last (dropWhile P xs) = last xs"
  by (induction xs) (auto split: if_splits)

lemma trim_fix: "s = [] \<or> (\<not> is_ws (hd s) \<and> \<not> is_ws (last s)) \<Longrightarrow> trim s = s"
proof -
  assume a: "s = [] \<or> (\<not> is_ws (hd s) \<and> \<not> is_ws (last s))"
  have 1: "dropWhile is_ws s = s" using a by (intro dropWhile_hd_id) auto
  have 2: "dropWhile is_ws (rev s) = rev s" using a by (intro dropWhile_hd_id) (auto simp: hd_rev)
  show ?thesis by (simp add: trim_def 1 2)
qed

lemma trim_suffix_prefix: "\<exists>t. suffix t s \<and> prefix (trim s) t"
proof -
  have "suffix (dropWhile is_ws s) s" by (rule suffix_dropWhile)
  moreover have "suffix (dropWhile is_ws (rev (dropWhile is_ws s))) (rev (dropWhile is_ws s))"
    by (rule suffix_dropWhile)
  then have "prefix (trim s) (dropWhile is_ws s)"
    unfolding trim_def by (metis suffix_to_prefix rev_rev_ident)
  ultimately show ?thesis by blast
qed

lemma sublist_trim: "sublist (trim s) s"
  using trim_suffix_prefix [of s] by (auto simp: sublist_def prefix_def suffix_def) 

lemma set_trim: "set (trim s) \<subseteq> set s"
  using sublist_trim [of s] by (rule set_mono_sublist)

lemma length_trim: "length (trim s) \<le> length s"
  using sublist_trim [of s] by (rule sublist_length_le)

lemma trim_ends: "trim s = [] \<or> (\<not> is_ws (hd (trim s)) \<and> \<not> is_ws (last (trim s)))"
proof (cases "trim s = []")
  case True then show ?thesis by simp
next
  case False
  let ?d = "dropWhile is_ws s"
  let ?e = "dropWhile is_ws (rev ?d)"
  have ne: "?e \<noteq> []" using False by (simp add: trim_def)
  then have l: "\<not> is_ws (hd ?e)" by (rule hd_dropWhile)
  have dne: "?d \<noteq> []"
  proof
    assume a: "?d = []"
    have "?e = dropWhile is_ws (rev [])" by (simp only: a)
    with ne show False by simp
  qed
  then have h: "\<not> is_ws (hd ?d)" by (rule hd_dropWhile)
  have "last (trim s) = hd ?e" using ne by (simp add: trim_def last_rev)
  moreover have "hd (trim s) = last ?e" using ne by (simp add: trim_def hd_rev)
  moreover have "last ?e = last (rev ?d)" using ne by (rule last_dropWhile_ne) 
  moreover have "last (rev ?d) = hd ?d" using dne by (simp add: last_rev)
  ultimately show ?thesis using l h by simp
qed

lemma trim_idem: "trim (trim s) = trim s"
  using trim_ends [of s] by (rule trim_fix)

lemma triple_sublist: "triple s = sublist [NEWLINE, NEWLINE, NEWLINE] s"
  by (induction s rule: triple.induct) (auto simp: sublist_Cons_right)

declare collapse_newlines.simps(2) [simp del]

lemma collapse_Cons_run:
  assumes "c = NEWLINE \<and> 3 \<le> length (takeWhile (\<lambda>x. x = NEWLINE) (c # cs))"
  shows "collapse_newlines (c # cs) =
           NEWLINE # NEWLINE # collapse_newlines (dropWhile (\<lambda>x. x = NEWLINE) cs)"
  by (subst collapse_newlines.simps(2)) (rule if_P [OF assms])

lemma collapse_Cons_keep:
  assumes "\<not> (c = NEWLINE \<and> 3 \<le> length (takeWhile (\<lambda>x. x = NEWLINE) (c # cs)))"
  shows "collapse_newlines (c # cs) = c # collapse_newlines cs"
  by (subst collapse_newlines.simps(2)) (rule if_not_P [OF assms])

lemma run_Cons:
  "(c = NEWLINE \<and> 3 \<le> length (takeWhile (\<lambda>x. x = NEWLINE) (c # cs))) =
   (c = NEWLINE \<and> 2 \<le> length (takeWhile (\<lambda>x. x = NEWLINE) cs))"
  by auto

lemma triple_run:
  "c = NEWLINE \<and> 3 \<le> length (takeWhile (\<lambda>x. x = NEWLINE) (c # cs)) \<Longrightarrow> triple (c # cs)"
  by (cases cs; cases "tl cs") (auto split: if_splits)

lemma triple_tl: "\<not> triple (c # cs) \<Longrightarrow> \<not> triple cs"
  by (cases cs; cases "tl cs") auto

lemma collapse_keep: "\<not> triple s \<Longrightarrow> collapse_newlines s = s"
proof (induction s rule: collapse_newlines.induct)
  case 1 show ?case by simp
next
  case (2 c cs)
  have nt: "\<not> (c = NEWLINE \<and> 3 \<le> length (takeWhile (\<lambda>x. x = NEWLINE) (c # cs)))"
    using "2.prems" triple_run by blast
  have "collapse_newlines cs = cs"
    using "2.IH"(2) [OF nt] "2.prems" triple_tl by blast
  then show ?case by (simp add: collapse_Cons_keep [OF nt])
qed

lemma takeWhile_dropWhile_nil: "takeWhile P (dropWhile P xs) = []"
  by (induction xs) auto

lemma lead_collapse:
  "length (takeWhile (\<lambda>x. x = NEWLINE) (collapse_newlines s)) =
     (if 3 \<le> length (takeWhile (\<lambda>x. x = NEWLINE) s) then 2
      else length (takeWhile (\<lambda>x. x = NEWLINE) s))"
proof (induction s rule: collapse_newlines.induct)
  case 1 show ?case by simp
next
  case (2 c cs)
  show ?case
  proof (cases "c = NEWLINE \<and> 3 \<le> length (takeWhile (\<lambda>x. x = NEWLINE) (c # cs))")
    case True
    have "length (takeWhile (\<lambda>x. x = NEWLINE)
            (collapse_newlines (dropWhile (\<lambda>x. x = NEWLINE) cs))) = 0"
      using "2.IH"(1) [OF True] by (simp add: takeWhile_dropWhile_nil)
    moreover from True have "c = NEWLINE" "2 \<le> length (takeWhile (\<lambda>x. x = NEWLINE) cs)"
      unfolding run_Cons by blast+
    ultimately show ?thesis unfolding collapse_Cons_run [OF True] by simp
  next
    case False
    show ?thesis
    proof (cases "c = NEWLINE")
      case True
      with False have "length (takeWhile (\<lambda>x. x = NEWLINE) cs) \<le> 1" by simp
      with True "2.IH"(2) [OF False] show ?thesis
        unfolding collapse_Cons_keep [OF False] by simp
    next
      case c: False
      then show ?thesis unfolding collapse_Cons_keep [OF False] by simp
    qed
  qed
qed

lemma triple_skip: "c \<noteq> NEWLINE \<Longrightarrow> triple (c # r) = triple r"
  by (cases r; cases "tl r") auto

lemma triple_short_lead:
  "length (takeWhile (\<lambda>x. x = NEWLINE) r) \<le> 1 \<Longrightarrow> triple (c # r) = triple r"
  by (cases r; cases "tl r") (auto split: if_splits)

lemma triple_no_lead:
  "length (takeWhile (\<lambda>x. x = NEWLINE) r) = 0 \<Longrightarrow> triple (a # b # r) = triple r"
  by (cases r; cases "tl r") (auto split: if_splits)

lemma collapse_no_triple: "\<not> triple (collapse_newlines s)"
proof (induction s rule: collapse_newlines.induct)
  case 1 show ?case by simp
next
  case (2 c cs)
  show ?case
  proof (cases "c = NEWLINE \<and> 3 \<le> length (takeWhile (\<lambda>x. x = NEWLINE) (c # cs))")
    case True
    have "length (takeWhile (\<lambda>x. x = NEWLINE)
            (collapse_newlines (dropWhile (\<lambda>x. x = NEWLINE) cs))) = 0"
      by (simp only: lead_collapse takeWhile_dropWhile_nil) simp
    then have "triple (NEWLINE # NEWLINE # collapse_newlines (dropWhile (\<lambda>x. x = NEWLINE) cs))
                 = triple (collapse_newlines (dropWhile (\<lambda>x. x = NEWLINE) cs))"
      by (rule triple_no_lead)
    with "2.IH"(1) [OF True] show ?thesis unfolding collapse_Cons_run [OF True] by blast
  next
    case False
    have ih: "\<not> triple (collapse_newlines cs)" by (rule "2.IH"(2) [OF False])
    show ?thesis
    proof (cases "c = NEWLINE")
      case True
      with False have "length (takeWhile (\<lambda>x. x = NEWLINE) cs) \<le> 1" by simp
      then have "length (takeWhile (\<lambda>x. x = NEWLINE) (collapse_newlines cs)) \<le> 1"
        by (simp add: lead_collapse)
      then have "triple (c # collapse_newlines cs) = triple (collapse_newlines cs)"
        by (rule triple_short_lead)
      with ih show ?thesis unfolding collapse_Cons_keep [OF False] by blast
    next
      case c: False
      then have "triple (c # collapse_newlines cs) = triple (collapse_newlines cs)"
        by (rule triple_skip)
      with ih show ?thesis unfolding collapse_Cons_keep [OF False] by blast
    qed
  qed
qed

lemma length_collapse: "length (collapse_newlines s) \<le> length s"
proof (induction s rule: collapse_newlines.induct)
  case 1 show ?case by simp
next
  case (2 c cs)
  show ?case
  proof (cases "c = NEWLINE \<and> 3 \<le> length (takeWhile (\<lambda>x. x = NEWLINE) (c # cs))")
    case True
    have "length (dropWhile (\<lambda>x. x = NEWLINE) cs) \<le> length cs" by (rule length_dropWhile_le)
    moreover have "2 \<le> length (takeWhile (\<lambda>x. x = NEWLINE) cs)"
      using True unfolding run_Cons by blast
    moreover have "length (takeWhile (\<lambda>x. x = NEWLINE) cs) + length (dropWhile (\<lambda>x. x = NEWLINE) cs) = length cs"
      by (simp add: length_append [symmetric] del: length_append)
    ultimately show ?thesis using "2.IH"(1) [OF True]
      unfolding collapse_Cons_run [OF True] by simp
  next
    case False
    with "2.IH"(2) [OF False] show ?thesis unfolding collapse_Cons_keep [OF False] by simp
  qed
qed

lemma set_collapse: "set (collapse_newlines s) \<subseteq> set s"
proof (induction s rule: collapse_newlines.induct)
  case 1 show ?case by simp
next
  case (2 c cs)
  show ?case
  proof (cases "c = NEWLINE \<and> 3 \<le> length (takeWhile (\<lambda>x. x = NEWLINE) (c # cs))")
    case True
    have "set (dropWhile (\<lambda>x. x = NEWLINE) cs) \<subseteq> set cs"
      using set_dropWhileD by fastforce
    with True "2.IH"(1) [OF True] show ?thesis
      unfolding collapse_Cons_run [OF True] by auto
  next
    case False
    with "2.IH"(2) [OF False] show ?thesis unfolding collapse_Cons_keep [OF False] by auto
  qed
qed

lemma sanitize_JStr:
  "sanitizeForPrompt (JStr s) mo =
     Inr (sanitize_chain s (case mo of None \<Rightarrow> Fin 2000 | Some m \<Rightarrow> m))"
  by (cases s) (simp_all add: sanitizeForPrompt_def sanitize_chain_def substring0_def trim_def Let_def)

lemma set_sanitize_chain:
  "set (sanitize_chain s m) \<subseteq> {c. c \<noteq> BACKSLASH \<and> c \<noteq> DQUOTE}"
proof -
  have "set (sanitize_chain s m) \<subseteq> set (filter (\<lambda>c. c \<noteq> BACKSLASH)
                 (map (\<lambda>c. if c = DQUOTE then SQUOTE else c) (substring0 s m)))"
    unfolding sanitize_chain_def using set_trim set_collapse by blast
  also have "\<dots> \<subseteq> {c. c \<noteq> BACKSLASH \<and> c \<noteq> DQUOTE}"
    by (auto simp: DQUOTE_def SQUOTE_def)
  finally show ?thesis .
qed

lemma length_sanitize_chain: "length (sanitize_chain s m) \<le> length (substring0 s m)"
proof -
  have "length (sanitize_chain s m) \<le> length (filter (\<lambda>c. c \<noteq> BACKSLASH)
                 (map (\<lambda>c. if c = DQUOTE then SQUOTE else c) (substring0 s m)))"
    unfolding sanitize_chain_def using length_trim length_collapse order_trans by blast
  also have "\<dots> \<le> length (substring0 s m)"
    using length_filter_le [of "\<lambda>c. c \<noteq> BACKSLASH" "map (\<lambda>c. if c = DQUOTE then SQUOTE else c) (substring0 s m)"]
    by simp
  finally show ?thesis .
qed

lemma substring0_short:
  "length t \<le> length (substring0 s m) \<Longrightarrow> substring0 t m = t"
  by (cases m) (auto simp: substring0_def)

lemma sanitize_chain_no_triple: "\<not> triple (sanitize_chain s m)"
proof
  assume "triple (sanitize_chain s m)"
  then have "sublist [NEWLINE, NEWLINE, NEWLINE] (sanitize_chain s m)" by (simp add: triple_sublist)
  moreover have "sublist (sanitize_chain s m) (collapse_newlines (filter (\<lambda>c. c \<noteq> BACKSLASH)
                 (map (\<lambda>c. if c = DQUOTE then SQUOTE else c) (substring0 s m))))"
    unfolding sanitize_chain_def by (rule sublist_trim)
  ultimately have "sublist [NEWLINE, NEWLINE, NEWLINE] (collapse_newlines (filter (\<lambda>c. c \<noteq> BACKSLASH)
                 (map (\<lambda>c. if c = DQUOTE then SQUOTE else c) (substring0 s m))))"
    by (rule sublist_order.order.trans)
  then show False using collapse_no_triple by (simp add: triple_sublist [symmetric])
qed

lemma sanitize_chain_idem: "sanitize_chain (sanitize_chain s m) m = sanitize_chain s m"
proof -
  let ?o = "sanitize_chain s m"
  have 1: "substring0 ?o m = ?o" using length_sanitize_chain by (rule substring0_short)
  have 2: "map (\<lambda>c. if c = DQUOTE then SQUOTE else c) ?o = ?o"
    using set_sanitize_chain [of s m] by (intro map_idI) auto
  have 3: "filter (\<lambda>c. c \<noteq> BACKSLASH) ?o = ?o"
    using set_sanitize_chain [of s m] by (intro filter_True) auto
  have 4: "collapse_newlines ?o = ?o" using sanitize_chain_no_triple by (rule collapse_keep)
  have 5: "trim ?o = ?o" unfolding sanitize_chain_def by (rule trim_idem)
  have "sanitize_chain ?o m = trim (collapse_newlines (filter (\<lambda>c. c \<noteq> BACKSLASH)
                 (map (\<lambda>c. if c = DQUOTE then SQUOTE else c) (substring0 ?o m))))"
    by (simp only: sanitize_chain_def [of ?o m])
  then show ?thesis by (simp only: 1 2 3 4 5)
qed

section \<open>Sanitization\<close>

text \<open>
  Claim C8. For every string and every \<open>maxLength\<close> (omitted, finite, \<open>NaN\<close> or infinite),
  \<open>sanitizeForPrompt\<close> returns normally; its output holds no double quote and no backslash;
  sanitizing that output again under the same \<open>maxLength\<close> gives it back unchanged; and
  the empty string, \<open>undefined\<close> and \<open>null\<close> give the empty string.
\<close>

theorem sanitizeForPrompt_clean_idempotent:
  "(\<exists>out. sanitizeForPrompt (JStr s) m = Inr out
          \<and> DQUOTE \<notin> set out \<and> BACKSLASH \<notin> set out
          \<and> sanitizeForPrompt (JStr out) m = Inr out)
   \<and> sanitizeForPrompt (JStr []) m = Inr []
   \<and> sanitizeForPrompt JUndefined m = Inr []
   \<and> sanitizeForPrompt JNull m = Inr []"
proof -
  let ?m = "case m of None \<Rightarrow> Fin 2000 | Some m \<Rightarrow> m"
  have a: "sanitizeForPrompt (JStr s) m = Inr (sanitize_chain s ?m)" by (rule sanitize_JStr)
  have b: "DQUOTE \<notin> set (sanitize_chain s ?m)" "BACKSLASH \<notin> set (sanitize_chain s ?m)"
    using set_sanitize_chain [of s ?m] by auto
  have c: "sanitizeForPrompt (JStr (sanitize_chain s ?m)) m = Inr (sanitize_chain s ?m)"
    by (simp only: sanitize_JStr sanitize_chain_idem)
  have d: "sanitizeForPrompt (JStr []) m = Inr []" "sanitizeForPrompt JUndefined m = Inr []"
    "sanitizeForPrompt JNull m = Inr []"
    by (simp_all add: sanitizeForPrompt_def)
  from a b c d show ?thesis by blast
qed

theorem sanitizeForPrompt_clean_idempotent_witness:
  "sanitizeForPrompt (JStr [32, 97, DQUOTE, 98, BACKSLASH, 99, 10, 10, 10, 10, 100, 32])
      (Some (Fin 100)) = Inr [97, SQUOTE, 98, 99, 10, 10, 100]
   \<and> sanitizeForPrompt (JStr [97, SQUOTE, 98, 99, 10, 10, 100]) (Some (Fin 100))
      = Inr [97, SQUOTE, 98, 99, 10, 10, 100]
   \<and> sanitizeForPrompt (JStr [97, 98, 99, 100]) (Some (Fin 2)) = Inr [97, 98]"
  using sanitizeForPrompt_clean_idempotent
    [of "[32, 97, DQUOTE, 98, BACKSLASH, 99, 10, 10, 10, 10, 100, 32]" "Some (Fin 100)"]
  by (simp add: sanitizeForPrompt_def sanitize_chain_def substring0_def trim_def is_ws_def
      collapse_newlines.simps(2) DQUOTE_def SQUOTE_def BACKSLASH_def NEWLINE_def)

section \<open>Classification of provider failures\<close>

lemma message_heads:
  "RATE_LIMIT_MESSAGE \<noteq> BAD_REQUEST_PREFIX @ m"
  "AUTH_FAILED_MESSAGE \<noteq> BAD_REQUEST_PREFIX @ m"
  "RATE_LIMIT_MESSAGE \<noteq> UNAVAILABLE_PREFIX @ m"
  "AUTH_FAILED_MESSAGE \<noteq> UNAVAILABLE_PREFIX @ m"
  "RATE_LIMIT_MESSAGE \<noteq> AUTH_FAILED_MESSAGE"
  "\<not> prefix BAD_REQUEST_PREFIX (UNAVAILABLE_PREFIX @ m)"
  by (simp_all add: RATE_LIMIT_MESSAGE_def BAD_REQUEST_PREFIX_def AUTH_FAILED_MESSAGE_def
      UNAVAILABLE_PREFIX_def js_def)

lemma error_kind_raised:
  "error_kind (AIServiceError RATE_LIMIT_MESSAGE c) = Some ProviderRateLimited"
  "error_kind (AIServiceError AUTH_FAILED_MESSAGE c) = Some ProviderAuthFailed"
  "error_kind (AIServiceError (BAD_REQUEST_PREFIX @ m) c) = Some ProviderBadRequest"
  "error_kind (AIServiceError (UNAVAILABLE_PREFIX @ m) c) = Some ProviderUnavailable"
  using message_heads(1-4) [of m] message_heads(1-4) [of m, symmetric]
    message_heads(5) message_heads(5) [symmetric] message_heads(6) [of m]
  by (simp_all add: error_kind_def)

lemma callGeminiAPI_rejects:
  "\<exists>m c. callGeminiAPI (Inl e) n = (Inl (AIServiceError m c), Suc n)
     \<and> error_kind (AIServiceError m c) = Some (kind_of_status (status e))
     \<and> (status e = JNum (Fin 429) \<longrightarrow> error_kind (AIServiceError m c) = Some ProviderRateLimited)
     \<and> (status e = JNum (Fin 400) \<longrightarrow>
          error_kind (AIServiceError m c) = Some ProviderBadRequest \<and> suffix (message e) m)
     \<and> (status e = JNum (Fin 401) \<or> status e = JNum (Fin 403) \<longrightarrow>
          error_kind (AIServiceError m c) = Some ProviderAuthFailed)
     \<and> (status e \<notin> {JNum (Fin 429), JNum (Fin 400), JNum (Fin 401), JNum (Fin 403)} \<longrightarrow>
          error_kind (AIServiceError m c) = Some ProviderUnavailable)"
  by (simp add: callGeminiAPI_def kind_of_status_def error_kind_raised suffix_def)

text \<open>
  Claim C9. Every mapped error should wrap the original failure. For a failure with status
  400 \<open>callGeminiAPI\<close> constructs the \<open>AIServiceError\<close> with the message alone, so the raised
  error carries no cause; the other three branches pass the failure on.
\<close>

theorem callGeminiAPI_bad_request_drops_cause:
  "callGeminiAPI (Inl \<lparr>status = JNum (Fin 400), message = m\<rparr>) n
     = (Inl (AIServiceError (BAD_REQUEST_PREFIX @ m) None), Suc n)"
  by (simp add: callGeminiAPI_def)

section \<open>Rendering the instructions\<close>

lemma first_raised_None: "first_raised steps = None \<longleftrightarrow> (\<forall>s\<in>set steps. s = None)"
  by (induction steps) (auto simp: first_raised_def split: option.splits list.splits)

lemma template_q_cases: "template_q v = None \<or> template_q v = Some TypeError"
  by (simp add: template_q_def split: option.splits)

lemma key_q_cases: "key_q v = None \<or> key_q v = Some TypeError"
  by (simp add: key_q_def split: option.splits)

lemma template_v_cases: "template_v v = None \<or> template_v v = Some TypeError"
  by (simp add: template_v_def)

lemma formatStats_cases:
  "formatStatsForAffirmation v = None \<or> formatStatsForAffirmation v = Some TypeError"
  by (simp add: formatStatsForAffirmation_def split: jsval.splits)

lemma first_raised_TypeError:
  "\<forall>s\<in>set steps. s = None \<or> s = Some TypeError \<Longrightarrow>
   first_raised steps = None \<or> first_raised steps = Some TypeError"
  by (induction steps) (auto simp: first_raised_def split: option.splits list.splits)

lemma writingPromptsInstructions_cases:
  "writingPromptsInstructions mood theme = None
   \<or> writingPromptsInstructions mood theme = Some TypeError"
  unfolding writingPromptsInstructions_def
  using template_q_cases [of mood] template_q_cases [of theme]
  by (intro first_raised_TypeError) auto

lemma affirmationInstructions_cases:
  "affirmationInstructions username timeOfDay stats = None
   \<or> affirmationInstructions username timeOfDay stats = Some TypeError"
  unfolding affirmationInstructions_def getTimeBasedGreeting_def
  using key_q_cases [of timeOfDay] template_v_cases [of username] formatStats_cases [of stats]
  by (intro first_raised_TypeError) auto

lemma reflection_rendering_raises:
  "generateReflectionPrompt decode
     (Some \<lparr>letter_id = i, content = JNum (Fin 5), isDelivered = JBool True,
            letter_title = JUndefined, letter_mood = JUndefined, letter_goals = JUndefined,
            letter_createdAt = JUndefined\<rparr>) apiCall n = (Inl TypeError, n)"
  "generateReflectionPrompt decode
     (Some \<lparr>letter_id = i, content = JStr [100], isDelivered = JBool True,
            letter_title = JUndefined, letter_mood = JUndefined, letter_goals = JStr [103],
            letter_createdAt = JUndefined\<rparr>) apiCall n = (Inl TypeError, n)"
  by (simp_all add: generateReflectionPrompt_def reflectionInstructions_def first_raised_def
      getTimeSinceWritten_def formatGoalsForPrompt_def js_length_def template_v_def
      sanitizeForPrompt_def sanitize_chain_def js_or_def extractThemes_def js_def)

section \<open>Provider failures at the entry points\<close>

text \<open>
  Claim C3. A provider call that rejects with \<open>e\<close> makes \<open>callGeminiAPI\<close> raise an
  \<open>AIServiceError\<close> whose kind is the one the status of \<open>e\<close> selects: 429 gives
  \<open>ProviderRateLimited\<close>, 400 gives \<open>ProviderBadRequest\<close> with a message that ends in the
  provider's own, 401 and 403 give \<open>ProviderAuthFailed\<close>, any other status gives
  \<open>ProviderUnavailable\<close>. No handler returns the success envelope then: \<open>generate\<close>,
  \<open>getReflectionPrompt\<close>, \<open>getWritingPrompts\<close> and \<open>getAffirmation\<close> each either raised
  before the call, the count of calls unchanged, or raise that same error after the one
  call; the latter whenever validation passes and the instructions render.
\<close>

theorem provider_failure_classified:
  "\<exists>m c. callGeminiAPI (Inl e) n = (Inl (AIServiceError m c), Suc n)
     \<and> error_kind (AIServiceError m c) = Some (kind_of_status (status e))
     \<and> (status e = JNum (Fin 429) \<longrightarrow> error_kind (AIServiceError m c) = Some ProviderRateLimited)
     \<and> (status e = JNum (Fin 400) \<longrightarrow>
          error_kind (AIServiceError m c) = Some ProviderBadRequest \<and> suffix (message e) m)
     \<and> (status e = JNum (Fin 401) \<or> status e = JNum (Fin 403) \<longrightarrow>
          error_kind (AIServiceError m c) = Some ProviderAuthFailed)
     \<and> (status e \<notin> {JNum (Fin 429), JNum (Fin 400), JNum (Fin 401), JNum (Fin 403)} \<longrightarrow>
          error_kind (AIServiceError m c) = Some ProviderUnavailable)
     \<and> ((\<exists>err. generate body (Inl e) n = (Inl err, n))
          \<or> generate body (Inl e) n = (Inl (AIServiceError m c), Suc n))
     \<and> (validatePrompt (get body ''prompt'') = None \<longrightarrow>
          generate body (Inl e) n = (Inl (AIServiceError m c), Suc n))
     \<and> ((\<exists>err. getReflectionPrompt getLetterById decode uid rbody (Inl e) n = (Inl err, n))
          \<or> getReflectionPrompt getLetterById decode uid rbody (Inl e) n
               = (Inl (AIServiceError m c), Suc n))
     \<and> (truthy (get rbody ''letterId'') \<and> getLetterById uid (get rbody ''letterId'') = Inr l
          \<and> truthy (isDelivered l) \<and> truthy (content l) \<and> reflectionInstructions l = None \<longrightarrow>
          getReflectionPrompt getLetterById decode uid rbody (Inl e) n
            = (Inl (AIServiceError m c), Suc n))
     \<and> ((\<exists>err. getWritingPrompts decode mood theme count (Inl e) n = (Inl err, n))
          \<or> getWritingPrompts decode mood theme count (Inl e) n
               = (Inl (AIServiceError m c), Suc n))
     \<and> (promptCount count = Inr k \<and> writingPromptsInstructions mood theme = None \<longrightarrow>
          getWritingPrompts decode mood theme count (Inl e) n = (Inl (AIServiceError m c), Suc n))
     \<and> ((\<exists>err. getAffirmation decode user timeOfDay (Inl e) n = (Inl err, n))
          \<or> getAffirmation decode user timeOfDay (Inl e) n = (Inl (AIServiceError m c), Suc n))
     \<and> (affirmationInstructions (js_or (get user ''name'') (get user ''username'')) timeOfDay
            (get user ''stats'') = None \<longrightarrow>
          getAffirmation decode user timeOfDay (Inl e) n = (Inl (AIServiceError m c), Suc n))"
proof -
  from callGeminiAPI_rejects [of e n] obtain m c where
    r: "callGeminiAPI (Inl e) n = (Inl (AIServiceError m c), Suc n)"
    and k: "error_kind (AIServiceError m c) = Some (kind_of_status (status e))"
    "status e = JNum (Fin 429) \<longrightarrow> error_kind (AIServiceError m c) = Some ProviderRateLimited"
    "status e = JNum (Fin 400) \<longrightarrow>
          error_kind (AIServiceError m c) = Some ProviderBadRequest \<and> suffix (message e) m"
    "status e = JNum (Fin 401) \<or> status e = JNum (Fin 403) \<longrightarrow>
          error_kind (AIServiceError m c) = Some ProviderAuthFailed"
    "status e \<notin> {JNum (Fin 429), JNum (Fin 400), JNum (Fin 401), JNum (Fin 403)} \<longrightarrow>
          error_kind (AIServiceError m c) = Some ProviderUnavailable"
    by blast
  have g: "(\<exists>err. generate body (Inl e) n = (Inl err, n))
          \<or> generate body (Inl e) n = (Inl (AIServiceError m c), Suc n)"
    "validatePrompt (get body ''prompt'') = None \<longrightarrow>
          generate body (Inl e) n = (Inl (AIServiceError m c), Suc n)"
    by (auto simp: generate_def generateContent_def r split: option.splits)
  have s: "\<And>lo. (\<exists>err. generateReflectionPrompt decode lo (Inl e) n = (Inl err, n))
      \<or> generateReflectionPrompt decode lo (Inl e) n = (Inl (AIServiceError m c), Suc n)"
    by (auto simp: generateReflectionPrompt_def r split: option.splits)
  have rp1: "(\<exists>err. getReflectionPrompt getLetterById decode uid rbody (Inl e) n = (Inl err, n))
          \<or> getReflectionPrompt getLetterById decode uid rbody (Inl e) n
               = (Inl (AIServiceError m c), Suc n)"
  proof (cases "truthy (get rbody ''letterId'')")
    case False
    then show ?thesis by (simp add: getReflectionPrompt_def)
  next
    case t: True
    show ?thesis
    proof (cases "getLetterById uid (get rbody ''letterId'')")
      case (Inl x)
      with t show ?thesis by (simp add: getReflectionPrompt_def)
    next
      case (Inr lt)
      show ?thesis
      proof (cases "truthy (isDelivered lt)")
        case False
        with t Inr show ?thesis by (simp add: getReflectionPrompt_def)
      next
        case True
        from s [of "Some lt"] t Inr True show ?thesis
          by (auto simp: getReflectionPrompt_def)
      qed
    qed
  qed
  have rp2: "truthy (get rbody ''letterId'') \<and> getLetterById uid (get rbody ''letterId'') = Inr l
          \<and> truthy (isDelivered l) \<and> truthy (content l) \<and> reflectionInstructions l = None \<longrightarrow>
          getReflectionPrompt getLetterById decode uid rbody (Inl e) n
            = (Inl (AIServiceError m c), Suc n)"
    by (simp add: getReflectionPrompt_def generateReflectionPrompt_def r)
  have w: "(\<exists>err. getWritingPrompts decode mood theme count (Inl e) n = (Inl err, n))
          \<or> getWritingPrompts decode mood theme count (Inl e) n
               = (Inl (AIServiceError m c), Suc n)"
    "promptCount count = Inr k \<and> writingPromptsInstructions mood theme = None \<longrightarrow>
          getWritingPrompts decode mood theme count (Inl e) n = (Inl (AIServiceError m c), Suc n)"
    by (auto simp: getWritingPrompts_def generateWritingPrompts_def r split: option.splits sum.splits)
  have a: "(\<exists>err. getAffirmation decode user timeOfDay (Inl e) n = (Inl err, n))
          \<or> getAffirmation decode user timeOfDay (Inl e) n = (Inl (AIServiceError m c), Suc n)"
    "affirmationInstructions (js_or (get user ''name'') (get user ''username'')) timeOfDay
            (get user ''stats'') = None \<longrightarrow>
          getAffirmation decode user timeOfDay (Inl e) n = (Inl (AIServiceError m c), Suc n)"
    by (auto simp: getAffirmation_def generateAffirmation_def r Let_def split: option.splits)
  show ?thesis
    by (rule exI [of _ m], rule exI [of _ c]) (intro conjI; fact r k g rp1 rp2 w a)
qed

theorem provider_failure_classified_witness:
  "callGeminiAPI (Inl \<lparr>status = JNum (Fin 429), message = js ''quota''\<rparr>) 0 = (Inl (AIServiceError RATE_LIMIT_MESSAGE (Some \<lparr>status = JNum (Fin 429), message = js ''quota''\<rparr>)), 1)
   \<and> error_kind (AIServiceError RATE_LIMIT_MESSAGE (Some \<lparr>status = JNum (Fin 429), message = js ''quota''\<rparr>)) = Some ProviderRateLimited
   \<and> generate [(js ''prompt'', JStr (js ''hello''))] (Inl \<lparr>status = JNum (Fin 429), message = js ''quota''\<rparr>) 0
        = (Inl (AIServiceError RATE_LIMIT_MESSAGE (Some \<lparr>status = JNum (Fin 429), message = js ''quota''\<rparr>)), 1)
   \<and> getReflectionPrompt
        (\<lambda>u i. Inr \<lparr>letter_id = i, content = JStr (js ''Dear me''), isDelivered = JBool True,
                       letter_title = JStr (js ''Hi''), letter_mood = JUndefined,
                       letter_goals = JArr [], letter_createdAt = JUndefined\<rparr>)
        (\<lambda>t. None) (JStr (js ''u1'')) [(js ''letterId'', JStr (js ''l1''))] (Inl \<lparr>status = JNum (Fin 429), message = js ''quota''\<rparr>) 0
        = (Inl (AIServiceError RATE_LIMIT_MESSAGE (Some \<lparr>status = JNum (Fin 429), message = js ''quota''\<rparr>)), 1)
   \<and> getWritingPrompts (\<lambda>t. None) None None None (Inl \<lparr>status = JNum (Fin 429), message = js ''quota''\<rparr>) 0
        = (Inl (AIServiceError RATE_LIMIT_MESSAGE (Some \<lparr>status = JNum (Fin 429), message = js ''quota''\<rparr>)), 1)
   \<and> getAffirmation (\<lambda>t. None) [] None (Inl \<lparr>status = JNum (Fin 429), message = js ''quota''\<rparr>) 0
        = (Inl (AIServiceError RATE_LIMIT_MESSAGE (Some \<lparr>status = JNum (Fin 429), message = js ''quota''\<rparr>)), 1)
   \<and> (\<exists>m c. callGeminiAPI (Inl \<lparr>status = JNum (Fin 400), message = js ''bad schema''\<rparr>) 0
            = (Inl (AIServiceError m c), 1)
         \<and> error_kind (AIServiceError m c) = Some ProviderBadRequest
         \<and> suffix (js ''bad schema'') m)
   \<and> (\<exists>m c. callGeminiAPI (Inl \<lparr>status = JNum (Fin 403), message = js ''key''\<rparr>) 0
            = (Inl (AIServiceError m c), 1)
         \<and> error_kind (AIServiceError m c) = Some ProviderAuthFailed)
   \<and> (\<exists>m c. callGeminiAPI (Inl \<lparr>status = JUndefined, message = js ''fetch failed''\<rparr>) 0
            = (Inl (AIServiceError m c), 1)
         \<and> error_kind (AIServiceError m c) = Some ProviderUnavailable)"
proof -
  let ?L = "\<lparr>letter_id = JStr (js ''l1''), content = JStr (js ''Dear me''), isDelivered = JBool True,
                             letter_title = JStr (js ''Hi''), letter_mood = JUndefined,
                             letter_goals = JArr [], letter_createdAt = JUndefined\<rparr>"
  have i: "reflectionInstructions ?L = None"
    by (simp add: reflectionInstructions_def first_raised_def getTimeSinceWritten_def
        formatGoalsForPrompt_def template_v_def sanitizeForPrompt_def js_or_def extractThemes_def
        js_def js_length_def)
  have w: "promptCount None = Inr 3" "writingPromptsInstructions None None = None"
    by (simp_all add: promptCount_def parseInt_def js_def is_ws_def is_digit_def
        writingPromptsInstructions_def first_raised_def template_q_def)
  have a: "affirmationInstructions (js_or (get [] ''name'') (get [] ''username'')) None
             (get [] ''stats'') = None"
    by (simp add: affirmationInstructions_def first_raised_def getTimeBasedGreeting_def key_q_def
        template_v_def formatStatsForAffirmation_def get_def js_or_def)
  have v: "validatePrompt (get [(js ''prompt'', JStr (js ''hello''))] ''prompt'') = None"
    by (simp add: validatePrompt_def get_def js_def trim_def is_ws_def)
  have l: "get [(js ''letterId'', JStr (js ''l1''))] ''letterId'' = JStr (js ''l1'')"
    by (simp add: get_def js_def)
  have c: "js ''l1'' \<noteq> []" "js ''Dear me'' \<noteq> []" by (simp_all add: js_def)
  have p1: "callGeminiAPI (Inl \<lparr>status = JNum (Fin 429), message = js ''quota''\<rparr>) 0 = (Inl (AIServiceError RATE_LIMIT_MESSAGE (Some \<lparr>status = JNum (Fin 429), message = js ''quota''\<rparr>)), 1)
   \<and> error_kind (AIServiceError RATE_LIMIT_MESSAGE (Some \<lparr>status = JNum (Fin 429), message = js ''quota''\<rparr>)) = Some ProviderRateLimited
   \<and> generate [(js ''prompt'', JStr (js ''hello''))] (Inl \<lparr>status = JNum (Fin 429), message = js ''quota''\<rparr>) 0
        = (Inl (AIServiceError RATE_LIMIT_MESSAGE (Some \<lparr>status = JNum (Fin 429), message = js ''quota''\<rparr>)), 1)
   \<and> getReflectionPrompt
        (\<lambda>u i. Inr \<lparr>letter_id = i, content = JStr (js ''Dear me''), isDelivered = JBool True,
                       letter_title = JStr (js ''Hi''), letter_mood = JUndefined,
                       letter_goals = JArr [], letter_createdAt = JUndefined\<rparr>)
        (\<lambda>t. None) (JStr (js ''u1'')) [(js ''letterId'', JStr (js ''l1''))] (Inl \<lparr>status = JNum (Fin 429), message = js ''quota''\<rparr>) 0
        = (Inl (AIServiceError RATE_LIMIT_MESSAGE (Some \<lparr>status = JNum (Fin 429), message = js ''quota''\<rparr>)), 1)
   \<and> getWritingPrompts (\<lambda>t. None) None None None (Inl \<lparr>status = JNum (Fin 429), message = js ''quota''\<rparr>) 0
        = (Inl (AIServiceError RATE_LIMIT_MESSAGE (Some \<lparr>status = JNum (Fin 429), message = js ''quota''\<rparr>)), 1)
   \<and> getAffirmation (\<lambda>t. None) [] None (Inl \<lparr>status = JNum (Fin 429), message = js ''quota''\<rparr>) 0
        = (Inl (AIServiceError RATE_LIMIT_MESSAGE (Some \<lparr>status = JNum (Fin 429), message = js ''quota''\<rparr>)), 1)"
    using provider_failure_classified [where e = "\<lparr>status = JNum (Fin 429), message = js ''quota''\<rparr>"
        and n = 0 and body = "[(js ''prompt'', JStr (js ''hello''))]"
        and rbody = "[(js ''letterId'', JStr (js ''l1''))]" and uid = "JStr (js ''u1'')"
        and getLetterById = "\<lambda>u i. Inr \<lparr>letter_id = i, content = JStr (js ''Dear me''), isDelivered = JBool True,
                       letter_title = JStr (js ''Hi''), letter_mood = JUndefined,
                       letter_goals = JArr [], letter_createdAt = JUndefined\<rparr>"
        and l = ?L and decode = "\<lambda>t. None" and mood = None and theme = None and count = None
        and k = 3 and user = "[]" and timeOfDay = None]
    by (simp add: callGeminiAPI_def i w a v l c error_kind_raised)
  have p2: "\<exists>m c. callGeminiAPI (Inl \<lparr>status = JNum (Fin 400), message = js ''bad schema''\<rparr>) 0
            = (Inl (AIServiceError m c), 1)
         \<and> error_kind (AIServiceError m c) = Some ProviderBadRequest
         \<and> suffix (js ''bad schema'') m"
    using callGeminiAPI_rejects [of "\<lparr>status = JNum (Fin 400), message = js ''bad schema''\<rparr>" 0]
    by auto
  have p3: "\<exists>m c. callGeminiAPI (Inl \<lparr>status = JNum (Fin 403), message = js ''key''\<rparr>) 0
            = (Inl (AIServiceError m c), 1)
         \<and> error_kind (AIServiceError m c) = Some ProviderAuthFailed"
    using callGeminiAPI_rejects [of "\<lparr>status = JNum (Fin 403), message = js ''key''\<rparr>" 0]
    by auto
  have p4: "\<exists>m c. callGeminiAPI (Inl \<lparr>status = JUndefined, message = js ''fetch failed''\<rparr>) 0
            = (Inl (AIServiceError m c), 1)
         \<and> error_kind (AIServiceError m c) = Some ProviderUnavailable"
    using callGeminiAPI_rejects [of "\<lparr>status = JUndefined, message = js ''fetch failed''\<rparr>" 0]
    by auto
  from p1 p2 p3 p4 show ?thesis by blast
qed

section \<open>Fallback on an undecodable answer\<close>

lemma reflection_fallback_on_absent_text:
  "truthy (content l) \<Longrightarrow> reflectionInstructions l = None \<Longrightarrow>
   generateReflectionPrompt decode (Some l) (Inr (r\<lparr>resp_text := None\<rparr>)) n
     = (Inr [(js ''prompt'', JStr DEFAULT_QUESTION), (js ''metadata'', fallback_metadata)], Suc n)"
  by (simp add: generateReflectionPrompt_def callGeminiAPI_def JSON_parse_def extractQuestionFromText_def)

text \<open>
  Claim C1. A parse failure should always end in a fallback result marked
  \<open>parseError\<close>, also when the provider's text is absent. With \<open>response.text\<close> undefined the
  parse throws, and the catch blocks of \<open>generateWritingPrompts\<close> and \<open>generateAffirmation\<close>
  call \<open>split\<close> and \<open>trim\<close> on the undefined text: whatever the other arguments, a
  TypeError leaves the function, after the provider call when the instructions rendered.
  \<open>generateReflectionPrompt\<close> guards the absent text in \<open>extractQuestionFromText\<close> and
  returns the default question (\<open>reflection_fallback_on_absent_text\<close>).
\<close>

theorem fallback_raises_on_absent_text:
  "generateWritingPrompts decode mood theme count (Inr (r\<lparr>resp_text := None\<rparr>)) n
     = (Inl TypeError, if writingPromptsInstructions mood theme = None then Suc n else n)
   \<and> generateAffirmation decode username timeOfDay stats (Inr (r\<lparr>resp_text := None\<rparr>)) n
     = (Inl TypeError, if affirmationInstructions username timeOfDay stats = None then Suc n else n)"
  using writingPromptsInstructions_cases [of mood theme]
    affirmationInstructions_cases [of username timeOfDay stats]
  by (auto simp: generateWritingPrompts_def generateAffirmation_def callGeminiAPI_def JSON_parse_def)

section \<open>Validation before the provider call\<close>

text \<open>
  Claim C2. A reflection-prompt request whose letter identifier is missing (falsy), or whose
  fetched letter is not delivered, and a free-form request whose prompt is not a string with
  a non-blank character, end in a \<open>ValidationError\<close> with a non-empty detail map, and the
  count of provider calls is the one the request started with: none was made. The free-form
  part is stated for the handler \<open>generate\<close> and for the service function
  \<open>generateContent\<close>.
\<close>

theorem validation_precedes_provider:
  "((\<not> truthy (get body ''letterId'')
      \<or> (\<exists>l. getLetterById uid (get body ''letterId'') = Inr l \<and> \<not> truthy (isDelivered l)))
     \<longrightarrow> (\<exists>msg details.
            getReflectionPrompt getLetterById decode uid body apiCall n
              = (Inl (ValidationError msg details), n) \<and> details \<noteq> []))
   \<and> ((\<forall>s. get body ''prompt'' = JStr s \<longrightarrow> trim s = [])
     \<longrightarrow> (\<exists>msg details.
            generate body apiCall n = (Inl (ValidationError msg details), n) \<and> details \<noteq> []))
   \<and> ((\<forall>s. prompt = JStr s \<longrightarrow> trim s = [])
     \<longrightarrow> (\<exists>msg details.
            generateContent prompt options apiCall n = (Inl (ValidationError msg details), n)
            \<and> details \<noteq> []))"
proof -
  have v: "\<And>p. (\<forall>s. p = JStr s \<longrightarrow> trim s = []) \<Longrightarrow>
             \<exists>msg details. validatePrompt p = Some (ValidationError msg details) \<and> details \<noteq> []"
    by (auto simp: validatePrompt_def split: jsval.splits)
  have g: "\<And>p opts. (\<forall>s. p = JStr s \<longrightarrow> trim s = []) \<Longrightarrow>
             \<exists>msg details. generateContent p opts apiCall n = (Inl (ValidationError msg details), n)
               \<and> details \<noteq> []"
  proof -
    fix p opts assume "\<forall>s. p = JStr s \<longrightarrow> trim s = []"
    from v [OF this] obtain msg details where
      "validatePrompt p = Some (ValidationError msg details)" "details \<noteq> []" by blast
    then show "\<exists>msg details. generateContent p opts apiCall n = (Inl (ValidationError msg details), n)
               \<and> details \<noteq> []"
      by (simp add: generateContent_def)
  qed
  have r: "(\<not> truthy (get body ''letterId'')
      \<or> (\<exists>l. getLetterById uid (get body ''letterId'') = Inr l \<and> \<not> truthy (isDelivered l)))
     \<longrightarrow> (\<exists>msg details.
            getReflectionPrompt getLetterById decode uid body apiCall n
              = (Inl (ValidationError msg details), n) \<and> details \<noteq> [])"
    by (auto simp: getReflectionPrompt_def Let_def)
  have c: "(\<forall>s. get body ''prompt'' = JStr s \<longrightarrow> trim s = [])
     \<longrightarrow> (\<exists>msg details.
            generate body apiCall n = (Inl (ValidationError msg details), n) \<and> details \<noteq> [])"
  proof
    assume "\<forall>s. get body ''prompt'' = JStr s \<longrightarrow> trim s = []"
    from g [OF this] obtain msg details where
      "generateContent (get body ''prompt'')
             [(js ''systemInstruction'', get body ''systemInstruction''),
              (js ''model'', get body ''model''),
              (js ''temperature'', get body ''temperature''),
              (js ''maxOutputTokens'', get body ''maxOutputTokens'')] apiCall n
         = (Inl (ValidationError msg details), n)" "details \<noteq> []" by blast
    then show "\<exists>msg details.
            generate body apiCall n = (Inl (ValidationError msg details), n) \<and> details \<noteq> []"
      by (simp add: generate_def)
  qed
  from r c g show ?thesis by blast
qed

theorem validation_precedes_provider_witness:
  "(\<exists>msg details.
      getReflectionPrompt (\<lambda>u i. Inl (OtherError [])) (\<lambda>t. None) (JStr (js ''u1'')) []
        (Inr \<lparr>resp_text = None, finishReason = JUndefined, safetyRatings = JUndefined,
               usageMetadata = JUndefined\<rparr>) 0
        = (Inl (ValidationError msg details), 0) \<and> details \<noteq> [])
   \<and> (\<exists>msg details.
      getReflectionPrompt
        (\<lambda>u i. Inr \<lparr>letter_id = i, content = JStr (js ''Dear me''), isDelivered = JBool False,
                       letter_title = JStr (js ''Hi''), letter_mood = JUndefined,
                       letter_goals = JArr [], letter_createdAt = JUndefined\<rparr>)
        (\<lambda>t. None) (JStr (js ''u1'')) [(js ''letterId'', JStr (js ''l1''))]
        (Inr \<lparr>resp_text = None, finishReason = JUndefined, safetyRatings = JUndefined,
               usageMetadata = JUndefined\<rparr>) 0
        = (Inl (ValidationError msg details), 0) \<and> details \<noteq> [])
   \<and> (\<exists>msg details.
      generate [(js ''prompt'', JStr (js ''   ''))]
        (Inr \<lparr>resp_text = None, finishReason = JUndefined, safetyRatings = JUndefined,
               usageMetadata = JUndefined\<rparr>) 0
        = (Inl (ValidationError msg details), 0) \<and> details \<noteq> [])
   \<and> (\<exists>msg details.
      generateContent (JNum (Fin 5)) []
        (Inr \<lparr>resp_text = None, finishReason = JUndefined, safetyRatings = JUndefined,
               usageMetadata = JUndefined\<rparr>) 0
        = (Inl (ValidationError msg details), 0) \<and> details \<noteq> [])"
  using
    validation_precedes_provider [where body = "[]" and n = 0
      and getLetterById = "\<lambda>u i. Inl (OtherError [])" and decode = "\<lambda>t. None"
      and uid = "JStr (js ''u1'')" and prompt = "JNum (Fin 5)" and options = "[]"
      and apiCall = "Inr \<lparr>resp_text = None, finishReason = JUndefined, safetyRatings = JUndefined,
               usageMetadata = JUndefined\<rparr>"]
    validation_precedes_provider [where body = "[(js ''letterId'', JStr (js ''l1''))]" and n = 0
      and getLetterById = "\<lambda>u i. Inr \<lparr>letter_id = i, content = JStr (js ''Dear me''), isDelivered = JBool False,
                       letter_title = JStr (js ''Hi''), letter_mood = JUndefined,
                       letter_goals = JArr [], letter_createdAt = JUndefined\<rparr>"
      and decode = "\<lambda>t. None"
      and uid = "JStr (js ''u1'')" and prompt = "JNum (Fin 5)" and options = "[]"
      and apiCall = "Inr \<lparr>resp_text = None, finishReason = JUndefined, safetyRatings = JUndefined,
               usageMetadata = JUndefined\<rparr>"]
    validation_precedes_provider [where body = "[(js ''prompt'', JStr (js ''   ''))]" and n = 0
      and getLetterById = "\<lambda>u i. Inl (OtherError [])" and decode = "\<lambda>t. None"
      and uid = "JStr (js ''u1'')" and prompt = "JNum (Fin 5)" and options = "[]"
      and apiCall = "Inr \<lparr>resp_text = None, finishReason = JUndefined, safetyRatings = JUndefined,
               usageMetadata = JUndefined\<rparr>"]
  by (simp add: get_def js_def trim_def is_ws_def)

section \<open>The count of writing prompts\<close>

lemma parseInt_samples:
  "parseInt (js ''abc'') = None"
  "parseInt (js ''0'') = Some 0"
  "parseInt (js ''1'') = Some 1"
  "parseInt (js ''5'') = Some 5"
  "parseInt (js ''6'') = Some 6"
  "parseInt (js '' -12px'') = Some (- 12)"
  "parseInt (js ''-0'') = Some 0"
  "parseInt (js ''2abc'') = Some 2"
  "parseInt (js ''undefined'') = None"
  "parseInt (js ''[object Object]'') = None"
  by (simp_all add: parseInt_def js_def is_ws_def is_digit_def digits_value_def)

lemma ToString_samples:
  "ToString (QObj [(js ''toString'', QStr (js ''1''))]) = None"
  "ToString (QArr [QStr (js ''0''), QObj [(js ''toString'', QStr (js ''1''))]]) = None"
  "ToString (QObj [(js ''valueOf'', QStr (js ''1''))]) = Some (js ''[object Object]'')"
  "ToString (QArr [QStr (js ''4''), QStr (js ''2'')]) = Some (js ''4,2'')"
  by (simp_all add: js_def)

lemma promptCount_raises:
  "promptCount (Some (QObj [(js ''toString'', QStr (js ''1''))])) = Inl TypeError"
  "getWritingPrompts decode mood theme (Some (QObj [(js ''toString'', QStr (js ''1''))])) apiCall n
     = (Inl TypeError, n)"
  by (simp_all add: promptCount_def getWritingPrompts_def ToString_samples)

lemma is_numeric_samples:
  "is_numeric (js ''5'')" "is_numeric (js '' -3 '')" "is_numeric (js ''2.5'')"
  "\<not> is_numeric (js ''abc'')" "\<not> is_numeric (js ''2abc'')" "\<not> is_numeric []"
  by (simp_all add: is_numeric_def js_def trim_def is_ws_def is_digit_def DOT_def)

lemma parseInt_no_digit:
  assumes "\<forall>d\<in>set s. \<not> is_digit d"
  shows "parseInt s = None"
proof -
  let ?S = "dropWhile is_ws s"
  let ?S' = "if take 1 ?S = [43] \<or> take 1 ?S = [45] then drop 1 ?S else ?S"
  have "set ?S \<subseteq> set s" by (auto dest: set_dropWhileD)
  moreover have "set (drop 1 ?S) \<subseteq> set ?S" by (rule set_drop_subset)
  ultimately have "set ?S' \<subseteq> set s" by auto
  with assms have "\<forall>d\<in>set ?S'. \<not> is_digit d" by blast
  then have "takeWhile is_digit ?S' = []" by (cases ?S') auto
  then show ?thesis by (simp add: parseInt_def Let_def)
qed

lemma promptCount_absent: "promptCount None = Inr 3"
  by (simp add: promptCount_def parseInt_samples)

lemma getWritingPrompts_uses:
  "promptCount count = Inr k \<Longrightarrow>
   getWritingPrompts decode mood theme count apiCall n
     = map_prod (map_sum id writingPromptsBody) id
         (generateWritingPrompts decode mood theme (Some k) apiCall n)"
  by (cases "generateWritingPrompts decode mood theme (Some k) apiCall n")
     (auto simp: getWritingPrompts_def split: sum.splits)

text \<open>
  Claim C5, as stated, fails: the raw count \<open>2abc\<close> is not numeric, yet \<open>parseInt\<close> reads
  its leading integer, and the handler asks for 2 prompts, not 3. With a provider text of
  three lines that does not decode, the body sent carries two prompts.
\<close>

theorem promptCount_non_numeric_counterexample:
  "\<not> is_numeric (js ''2abc'')
   \<and> promptCount (Some (QStr (js ''2abc''))) = Inr 2
   \<and> getWritingPrompts (map_of []) None None (Some (QStr (js ''2abc'')))
        (Inr \<lparr>resp_text = Some (js ''First prompt'' @ [NEWLINE] @ js ''Second prompt''
                                 @ [NEWLINE] @ js ''Third prompt''),
               finishReason = JUndefined, safetyRatings = JUndefined,
               usageMetadata = JUndefined\<rparr>) 0
      = (Inr [(js ''success'', JBool True),
              (js ''data'', JObj [(js ''prompts'',
                 JArr [JStr (js ''First prompt''), JStr (js ''Second prompt'')])])], 1)"
proof -
  have a: "\<not> is_numeric (js ''2abc'')"
    by (simp add: is_numeric_def js_def trim_def is_ws_def is_digit_def DOT_def)
  have b: "promptCount (Some (QStr (js ''2abc''))) = Inr 2"
    by (simp add: promptCount_def parseInt_samples)
  have c: "getWritingPrompts (map_of []) None None (Some (QStr (js ''2abc'')))
        (Inr \<lparr>resp_text = Some (js ''First prompt'' @ [NEWLINE] @ js ''Second prompt''
                                 @ [NEWLINE] @ js ''Third prompt''),
               finishReason = JUndefined, safetyRatings = JUndefined,
               usageMetadata = JUndefined\<rparr>) 0
      = (Inr [(js ''success'', JBool True),
              (js ''data'', JObj [(js ''prompts'',
                 JArr [JStr (js ''First prompt''), JStr (js ''Second prompt'')])])], 1)"
    unfolding getWritingPrompts_uses [OF b]
    by (simp add: generateWritingPrompts_def writingPromptsInstructions_def
        first_raised_def template_q_def callGeminiAPI_def JSON_parse_def slice0_def
        writingPromptsBody_def get_def js_def NEWLINE_def trim_def is_ws_def)
  from a b c show ?thesis by blast
qed

text \<open>
  Claim C5, amended. For every raw \<open>count\<close> that converts to a string, the count
  \<open>getWritingPrompts\<close> hands to the service lies in \<open>[1, 5]\<close>. It is 3 for an absent count
  and for every raw count in which \<open>parseInt\<close> finds no leading integer, such as any
  string without a decimal digit; a raw count with the leading integer \<open>i\<close> gives 3 when
  \<open>i = 0\<close> and otherwise \<open>i\<close> clamped into \<open>[1, 5]\<close>, whatever follows the integer.
\<close>

theorem getWritingPrompts_count:
  "promptCount None = Inr 3
   \<and> getWritingPrompts decode mood theme None apiCall n
       = map_prod (map_sum id writingPromptsBody) id
           (generateWritingPrompts decode mood theme (Some 3) apiCall n)
   \<and> (ToString v = Some str \<longrightarrow>
        (\<exists>k. promptCount (Some v) = Inr k \<and> 1 \<le> k \<and> k \<le> 5
           \<and> getWritingPrompts decode mood theme (Some v) apiCall n
               = map_prod (map_sum id writingPromptsBody) id
                   (generateWritingPrompts decode mood theme (Some k) apiCall n)
           \<and> (parseInt str = None \<longrightarrow> k = 3)
           \<and> (\<forall>i. parseInt str = Some i \<longrightarrow>
                 k = (if i = 0 then 3 else if i < 1 then 1 else if 5 < i then 5 else i))))
   \<and> ((\<forall>d\<in>set s. \<not> is_digit d) \<longrightarrow> promptCount (Some (QStr s)) = Inr 3)"
proof -
  have a: "getWritingPrompts decode mood theme None apiCall n
       = map_prod (map_sum id writingPromptsBody) id
           (generateWritingPrompts decode mood theme (Some 3) apiCall n)"
    using promptCount_absent by (rule getWritingPrompts_uses)
  have b: "ToString v = Some str \<longrightarrow>
        (\<exists>k. promptCount (Some v) = Inr k \<and> 1 \<le> k \<and> k \<le> 5
           \<and> getWritingPrompts decode mood theme (Some v) apiCall n
               = map_prod (map_sum id writingPromptsBody) id
                   (generateWritingPrompts decode mood theme (Some k) apiCall n)
           \<and> (parseInt str = None \<longrightarrow> k = 3)
           \<and> (\<forall>i. parseInt str = Some i \<longrightarrow>
                 k = (if i = 0 then 3 else if i < 1 then 1 else if 5 < i then 5 else i)))"
  proof
    assume t: "ToString v = Some str"
    let ?k = "case parseInt str of None \<Rightarrow> 3
        | Some i \<Rightarrow> if i = 0 then 3 else if i < 1 then 1 else if 5 < i then (5::int) else i"
    have p: "promptCount (Some v) = Inr ?k"
      by (cases "parseInt str") (simp_all add: promptCount_def t)
    have r: "1 \<le> ?k" "?k \<le> 5" by (cases "parseInt str"; simp)+
    have u: "getWritingPrompts decode mood theme (Some v) apiCall n
               = map_prod (map_sum id writingPromptsBody) id
                   (generateWritingPrompts decode mood theme (Some ?k) apiCall n)"
      using p by (rule getWritingPrompts_uses)
    have n: "parseInt str = None \<longrightarrow> ?k = 3" by simp
    have i: "\<forall>i. parseInt str = Some i \<longrightarrow>
                 ?k = (if i = 0 then 3 else if i < 1 then 1 else if 5 < i then 5 else i)"
      by simp
    show "\<exists>k. promptCount (Some v) = Inr k \<and> 1 \<le> k \<and> k \<le> 5
           \<and> getWritingPrompts decode mood theme (Some v) apiCall n
               = map_prod (map_sum id writingPromptsBody) id
                   (generateWritingPrompts decode mood theme (Some k) apiCall n)
           \<and> (parseInt str = None \<longrightarrow> k = 3)
           \<and> (\<forall>i. parseInt str = Some i \<longrightarrow>
                 k = (if i = 0 then 3 else if i < 1 then 1 else if 5 < i then 5 else i))"
      by (rule exI [of _ ?k]) (intro conjI p r u n i)
  qed
  have d: "(\<forall>d\<in>set s. \<not> is_digit d) \<longrightarrow> promptCount (Some (QStr s)) = Inr 3"
  proof
    assume "\<forall>d\<in>set s. \<not> is_digit d"
    then have "parseInt s = None" by (rule parseInt_no_digit)
    then show "promptCount (Some (QStr s)) = Inr 3" by (simp add: promptCount_def)
  qed
  from promptCount_absent a b d show ?thesis by (intro conjI)
qed

theorem getWritingPrompts_count_witness:
  "ToString (QStr (js ''abc'')) = Some (js ''abc'') \<and> parseInt (js ''abc'') = None
   \<and> promptCount (Some (QStr (js ''abc''))) = Inr 3
   \<and> getWritingPrompts (\<lambda>t. None) None None (Some (QStr (js ''abc''))) (Inr \<lparr>resp_text = None, finishReason = JUndefined, safetyRatings = JUndefined,
               usageMetadata = JUndefined\<rparr>) 0
       = map_prod (map_sum id writingPromptsBody) id
           (generateWritingPrompts (\<lambda>t. None) None None (Some 3) (Inr \<lparr>resp_text = None, finishReason = JUndefined, safetyRatings = JUndefined,
               usageMetadata = JUndefined\<rparr>) 0)
   \<and> promptCount (Some (QStr (js ''0''))) = Inr 3
   \<and> promptCount (Some (QStr (js ''1''))) = Inr 1
   \<and> promptCount (Some (QStr (js ''5''))) = Inr 5
   \<and> promptCount (Some (QStr (js ''6''))) = Inr 5
   \<and> promptCount (Some (QStr (js ''2abc''))) = Inr 2
   \<and> promptCount (Some (QStr (js '' -12px''))) = Inr 1
   \<and> promptCount (Some (QObj [])) = Inr 3"
proof -
  have s: "promptCount (Some (QStr (js ''0''))) = Inr 3"
    "promptCount (Some (QStr (js ''1''))) = Inr 1"
    "promptCount (Some (QStr (js ''5''))) = Inr 5"
    "promptCount (Some (QStr (js ''6''))) = Inr 5"
    "promptCount (Some (QStr (js ''2abc''))) = Inr 2"
    "promptCount (Some (QStr (js '' -12px''))) = Inr 1"
    "promptCount (Some (QObj [])) = Inr 3"
    by (simp_all add: promptCount_def parseInt_samples)
  have t: "ToString (QStr (js ''abc'')) = Some (js ''abc'')" by simp
  have a: "promptCount (Some (QStr (js ''abc''))) = Inr 3
   \<and> getWritingPrompts (\<lambda>t. None) None None (Some (QStr (js ''abc''))) (Inr \<lparr>resp_text = None, finishReason = JUndefined, safetyRatings = JUndefined,
               usageMetadata = JUndefined\<rparr>) 0
       = map_prod (map_sum id writingPromptsBody) id
           (generateWritingPrompts (\<lambda>t. None) None None (Some 3) (Inr \<lparr>resp_text = None, finishReason = JUndefined, safetyRatings = JUndefined,
               usageMetadata = JUndefined\<rparr>) 0)"
    using getWritingPrompts_count [where v = "QStr (js ''abc'')" and str = "js ''abc''"
      and s = "js ''abc''" and decode = "\<lambda>t. None" and mood = None and theme = None and n = 0
      and apiCall = "(Inr \<lparr>resp_text = None, finishReason = JUndefined, safetyRatings = JUndefined,
               usageMetadata = JUndefined\<rparr>)"]
    by (simp add: parseInt_samples)
  from s t a show ?thesis by (simp add: parseInt_samples)
qed

text \<open>
  Claim C10. A raw count whose integer parse is 0, such as the query value \<open>0\<close>, is falsy
  in \<open>parseInt(count, 10) || 3\<close>: \<open>getWritingPrompts\<close> answers such a request as it answers
  the request without a count, asking the service for 3 prompts, not for the lower bound 1.
\<close>

theorem promptCount_zero_is_default:
  "ToString v = Some str \<Longrightarrow> parseInt str = Some 0 \<Longrightarrow>
   promptCount (Some v) = Inr 3
   \<and> getWritingPrompts decode mood theme (Some v) apiCall n
       = getWritingPrompts decode mood theme None apiCall n
   \<and> getWritingPrompts decode mood theme (Some v) apiCall n
       = map_prod (map_sum id writingPromptsBody) id
           (generateWritingPrompts decode mood theme (Some 3) apiCall n)"
proof -
  assume a: "ToString v = Some str" "parseInt str = Some 0"
  then have p: "promptCount (Some v) = Inr 3" by (simp add: promptCount_def)
  have 1: "getWritingPrompts decode mood theme (Some v) apiCall n
       = map_prod (map_sum id writingPromptsBody) id
           (generateWritingPrompts decode mood theme (Some 3) apiCall n)"
    using p by (rule getWritingPrompts_uses)
  have 2: "getWritingPrompts decode mood theme None apiCall n
       = map_prod (map_sum id writingPromptsBody) id
           (generateWritingPrompts decode mood theme (Some 3) apiCall n)"
    using promptCount_absent by (rule getWritingPrompts_uses)
  from p 1 2 show ?thesis by simp
qed

theorem promptCount_zero_is_default_witness:
  "ToString (QStr (js ''0'')) = Some (js ''0'') \<and> parseInt (js ''0'') = Some 0
   \<and> promptCount (Some (QStr (js ''0''))) = Inr 3
   \<and> getWritingPrompts (\<lambda>t. None) None None (Some (QStr (js ''0''))) (Inr \<lparr>resp_text = None, finishReason = JUndefined, safetyRatings = JUndefined,
               usageMetadata = JUndefined\<rparr>) 0
       = getWritingPrompts (\<lambda>t. None) None None None (Inr \<lparr>resp_text = None, finishReason = JUndefined, safetyRatings = JUndefined,
               usageMetadata = JUndefined\<rparr>) 0"
  using promptCount_zero_is_default [where v = "QStr (js ''0'')" and str = "js ''0''"
      and decode = "\<lambda>t. None" and mood = None and theme = None and n = 0
      and apiCall = "(Inr \<lparr>resp_text = None, finishReason = JUndefined, safetyRatings = JUndefined,
               usageMetadata = JUndefined\<rparr>)"]
  by (simp add: parseInt_samples)

section \<open>The fallback for writing prompts\<close>

lemma split_lines_nonempty: "split_lines t \<noteq> []"
  by (induction t) (auto split: list.splits)

lemma split_lines_join:
  "concat (map (\<lambda>l. l @ [NEWLINE]) (split_lines t)) = t @ [NEWLINE]"
  by (induction t) (auto split: list.splits simp: split_lines_nonempty)

lemma split_lines_no_newline: "l \<in> set (split_lines t) \<Longrightarrow> NEWLINE \<notin> set l"
  by (induction t arbitrary: l) (auto split: list.splits if_splits)

text \<open>
  Claim C7. When the provider's text \<open>t\<close> does not decode (the parse throws, or yields
  \<open>null\<close>), \<open>generateWritingPrompts\<close>, its instructions rendered, with a requested count
  \<open>n \<ge> 0\<close> returns the fallback result whose prompts are the first \<open>n\<close> of the trimmed lines
  of \<open>t\<close> that have at least 6 code units, at most \<open>n\<close> of them. The lines are the pieces
  of \<open>t\<close> between line feeds (\<open>split_lines_join\<close>, \<open>split_lines_no_newline\<close>).
\<close>

theorem writing_prompts_fallback:
  "decode t = None \<or> decode t = Some JNull \<Longrightarrow> 0 \<le> n \<Longrightarrow> resp_text r = Some t \<Longrightarrow>
   writingPromptsInstructions mood theme = None \<Longrightarrow>
   \<exists>ps. generateWritingPrompts decode mood theme (Some n) (Inr r) k
          = (Inr [(js ''prompts'', JArr (map JStr ps)), (js ''metadata'', fallback_metadata)], Suc k)
      \<and> ps = take (nat n) (filter (\<lambda>l. 6 \<le> length l) (map trim (split_lines t)))
      \<and> length ps \<le> nat n"
proof -
  assume a: "decode t = None \<or> decode t = Some JNull" "0 \<le> n" "resp_text r = Some t"
    "writingPromptsInstructions mood theme = None"
  have f: "(\<lambda>p::jsstring. 5 < length p) = (\<lambda>l. 6 \<le> length l)"
    by (auto simp: fun_eq_iff)
  from a show ?thesis
    by (auto simp: generateWritingPrompts_def callGeminiAPI_def JSON_parse_def slice0_def f)
qed

theorem writing_prompts_fallback_witness:
  "\<exists>ps. generateWritingPrompts (\<lambda>t. None) (Some (QStr (js ''calm''))) None (Some 3)
          (Inr \<lparr>resp_text = Some (js ''a'' @ [NEWLINE] @ js ''Short'' @ [NEWLINE]
                                   @ js ''This is a valid prompt line'' @ [NEWLINE]),
                 finishReason = JUndefined, safetyRatings = JUndefined,
                 usageMetadata = JUndefined\<rparr>) 0
          = (Inr [(js ''prompts'', JArr (map JStr ps)), (js ''metadata'', fallback_metadata)], 1)
      \<and> ps = [js ''This is a valid prompt line''] \<and> length ps \<le> 3"
  using writing_prompts_fallback [where decode = "\<lambda>t. None" and n = 3 and k = 0
      and mood = "Some (QStr (js ''calm''))" and theme = None
      and t = "js ''a'' @ [NEWLINE] @ js ''Short'' @ [NEWLINE]
                                   @ js ''This is a valid prompt line'' @ [NEWLINE]"
      and r = "\<lparr>resp_text = Some (js ''a'' @ [NEWLINE] @ js ''Short'' @ [NEWLINE]
                                   @ js ''This is a valid prompt line'' @ [NEWLINE]),
                 finishReason = JUndefined, safetyRatings = JUndefined,
                 usageMetadata = JUndefined\<rparr>"]
  by (simp add: js_def NEWLINE_def trim_def is_ws_def writingPromptsInstructions_def
      first_raised_def template_q_def)

section \<open>The fallback for reflection questions\<close>

lemma take1_drop_nth: "j < length s \<Longrightarrow> take 1 (drop j s) = [s ! j]"
  by (simp add: Cons_nth_drop_Suc [symmetric])

lemma try_star_run:
  "\<forall>c\<in>set run. c \<noteq> QMARK \<Longrightarrow> k \<le> length run \<Longrightarrow>
   try_star k (run @ rest) =
     (if k = length run \<and> take 1 rest = [QMARK] then Some (run @ [QMARK]) else None)"
proof (induction k)
  case 0
  show ?case
  proof (cases run)
    case Nil
    then show ?thesis by (cases rest) auto
  next
    case (Cons c cs)
    with 0 show ?thesis by auto
  qed
next
  case (Suc k)
  have ih: "try_star k (run @ rest) = None" using Suc by simp
  show ?case
  proof (cases "Suc k = length run")
    case True
    then have f: "take 1 (drop (Suc k) (run @ rest)) = take 1 rest"
      "take (Suc (Suc k)) (run @ rest) = run @ take 1 rest" by simp_all
    have e: "try_star (Suc k) (run @ rest) =
               (if take 1 rest = [QMARK] then Some (run @ take 1 rest) else None)"
      by (simp only: try_star.simps f ih)
    show ?thesis unfolding e using True by auto
  next
    case False
    with Suc.prems have lt: "Suc k < length run" by simp
    then have "take 1 (drop (Suc k) (run @ rest)) = [run ! Suc k]"
      using take1_drop_nth [of "Suc k" "run @ rest"] by (simp add: nth_append)
    moreover have "run ! Suc k \<noteq> QMARK" using lt Suc.prems(1) by simp
    ultimately show ?thesis using False ih by simp
  qed
qed

lemma match_here_eq:
  "match_here s =
     (if take 1 (dropWhile (\<lambda>c. \<not> is_terminator c) s) = [QMARK]
      then Some (takeWhile (\<lambda>c. \<not> is_terminator c) s @ [QMARK]) else None)"
proof -
  let ?run = "takeWhile (\<lambda>c. \<not> is_terminator c) s"
  let ?rest = "dropWhile (\<lambda>c. \<not> is_terminator c) s"
  have q: "\<forall>c\<in>set ?run. c \<noteq> QMARK"
  proof
    fix c assume "c \<in> set ?run"
    then have "\<not> is_terminator c" by (rule set_takeWhileD [THEN conjunct2])
    then show "c \<noteq> QMARK" by (simp add: is_terminator_def)
  qed
  have "length ?run \<le> length ?run" by simp
  with q have "try_star (length ?run) (?run @ ?rest) =
     (if length ?run = length ?run \<and> take 1 ?rest = [QMARK] then Some (?run @ [QMARK]) else None)"
    by (rule try_star_run)
  then have "try_star (length ?run) s =
     (if take 1 ?rest = [QMARK] then Some (?run @ [QMARK]) else None)"
    by (simp only: takeWhile_dropWhile_id simp_thms)
  then show ?thesis by (simp only: match_here_def)
qed

lemma match_question_step:
  "s \<noteq> [] \<Longrightarrow> match_question s =
     (case match_here s of Some m \<Rightarrow> Some m | None \<Rightarrow> match_question (tl s))"
  by (cases s) (simp_all split: option.splits)

lemma match_question_none: "QMARK \<notin> set s \<Longrightarrow> match_question s = None"
proof (induction s)
  case Nil
  show ?case by (simp add: match_here_def)
next
  case (Cons c cs)
  have "take 1 (dropWhile (\<lambda>c. \<not> is_terminator c) (c # cs)) \<noteq> [QMARK]"
  proof
    assume a: "take 1 (dropWhile (\<lambda>c. \<not> is_terminator c) (c # cs)) = [QMARK]"
    then have "QMARK \<in> set (take 1 (dropWhile (\<lambda>c. \<not> is_terminator c) (c # cs)))" by simp
    then have "QMARK \<in> set (dropWhile (\<lambda>c. \<not> is_terminator c) (c # cs))" by (rule in_set_takeD)
    then have "QMARK \<in> set (c # cs)" by (rule set_dropWhileD)
    with Cons.prems show False by simp
  qed
  then have "match_here (c # cs) = None" by (simp only: match_here_eq if_False)
  with Cons show ?case by simp
qed

lemma match_question_decomp:
  "QMARK \<notin> set a \<Longrightarrow> a = [] \<or> last a = DOT \<or> last a = BANG \<Longrightarrow>
   \<forall>c\<in>set seg. \<not> is_terminator c \<Longrightarrow>
   match_question (a @ seg @ QMARK # rest) = Some (seg @ [QMARK])"
proof (induction a)
  case Nil
  have t: "takeWhile (\<lambda>c. \<not> is_terminator c) (seg @ QMARK # rest) = seg"
    using Nil.prems(3) by (simp add: is_terminator_def)
  have d: "dropWhile (\<lambda>c. \<not> is_terminator c) (seg @ QMARK # rest) = QMARK # rest"
    using Nil.prems(3) by (simp add: is_terminator_def)
  have mh: "match_here (seg @ QMARK # rest) = Some (seg @ [QMARK])"
    by (simp only: match_here_eq t d) simp
  have "seg @ QMARK # rest \<noteq> []" by simp
  then have "match_question (seg @ QMARK # rest) =
      (case match_here (seg @ QMARK # rest) of Some m \<Rightarrow> Some m
       | None \<Rightarrow> match_question (tl (seg @ QMARK # rest)))"
    by (rule match_question_step)
  then show ?case by (simp only: mh option.case append_Nil)
next
  case (Cons x a')
  let ?s = "(x # a') @ seg @ QMARK # rest"
  let ?N = "\<lambda>c. \<not> is_terminator c"
  have lt: "last (x # a') = DOT \<or> last (x # a') = BANG"
    using Cons.prems(2) by (simp del: last.simps)
  have mem: "last (x # a') \<in> set (x # a')" by (rule last_in_set) simp
  have nt: "\<not> ?N (last (x # a'))"
    using lt by (auto simp: is_terminator_def simp del: last.simps)
  have d: "dropWhile ?N ?s = dropWhile ?N (x # a') @ seg @ QMARK # rest"
    using mem nt by (rule dropWhile_append1)
  have ne: "dropWhile ?N (x # a') \<noteq> []"
  proof
    assume "dropWhile ?N (x # a') = []"
    then have "\<forall>y\<in>set (x # a'). ?N y" by (simp only: dropWhile_eq_Nil_conv)
    with mem nt show False by blast
  qed
  then obtain y ys where y: "dropWhile ?N (x # a') = y # ys"
    by (cases "dropWhile ?N (x # a')") blast+
  have "y \<in> set (dropWhile ?N (x # a'))" by (simp only: y list.set_intros)
  then have "y \<in> set (x # a')" by (rule set_dropWhileD)
  with Cons.prems(1) have yq: "y \<noteq> QMARK" by blast
  have "take 1 (dropWhile ?N ?s) = [y]" by (simp only: d y) simp
  with yq have "take 1 (dropWhile ?N ?s) \<noteq> [QMARK]" by simp
  then have mh: "match_here ?s = None" by (simp only: match_here_eq if_False)
  have "a' = [] \<or> last a' = DOT \<or> last a' = BANG"
    using lt by (cases a') simp_all
  moreover have "QMARK \<notin> set a'" using Cons.prems(1) by simp
  ultimately have ih: "match_question (a' @ seg @ QMARK # rest) = Some (seg @ [QMARK])"
    using Cons.IH Cons.prems(3) by blast
  have "match_question ?s = (case match_here ?s of Some m \<Rightarrow> Some m
       | None \<Rightarrow> match_question (a' @ seg @ QMARK # rest))"
    by (simp only: append_Cons match_question.simps)
  then show ?case by (simp only: mh ih option.case)
qed

lemma match_question_first:
  assumes "QMARK \<in> set t"
  shows "match_question t = Some (first_question t)"
proof -
  let ?pre = "takeWhile (\<lambda>c. c \<noteq> QMARK) t"
  let ?P = "\<lambda>c. c \<noteq> DOT \<and> c \<noteq> BANG"
  let ?a = "rev (dropWhile ?P (rev ?pre))"
  let ?seg = "rev (takeWhile ?P (rev ?pre))"
  have dne: "dropWhile (\<lambda>c. c \<noteq> QMARK) t \<noteq> []" using assms by (simp add: dropWhile_eq_Nil_conv)
  then have "hd (dropWhile (\<lambda>c. c \<noteq> QMARK) t) = QMARK" using hd_dropWhile [OF dne] by simp
  with dne obtain rest where rest: "dropWhile (\<lambda>c. c \<noteq> QMARK) t = QMARK # rest"
    by (cases "dropWhile (\<lambda>c. c \<noteq> QMARK) t") auto
  have pre: "?a @ ?seg = ?pre"
    by (simp add: rev_append [symmetric] del: rev_append) 
  have "(?a @ ?seg) @ QMARK # rest = ?pre @ dropWhile (\<lambda>c. c \<noteq> QMARK) t"
    by (simp only: pre rest)
  then have t: "?a @ ?seg @ QMARK # rest = t"
    by (simp only: takeWhile_dropWhile_id append_assoc)
  have inpre: "\<And>c. c \<in> set ?pre \<Longrightarrow> c \<noteq> QMARK" by (auto dest: set_takeWhileD)
  have 1: "QMARK \<notin> set ?a"
  proof
    assume "QMARK \<in> set ?a"
    then have "QMARK \<in> set (dropWhile ?P (rev ?pre))" by simp
    then have "QMARK \<in> set (rev ?pre)" by (rule set_dropWhileD)
    then have "QMARK \<in> set ?pre" by simp
    from inpre [OF this] show False by simp
  qed
  have 2: "?a = [] \<or> last ?a = DOT \<or> last ?a = BANG"
  proof (cases "dropWhile ?P (rev ?pre) = []")
    case True then show ?thesis by simp
  next
    case False
    then have "\<not> ?P (hd (dropWhile ?P (rev ?pre)))" by (rule hd_dropWhile)
    moreover have "last ?a = hd (dropWhile ?P (rev ?pre))" using False by (simp add: last_rev)
    ultimately show ?thesis by auto
  qed
  have 3: "\<forall>c\<in>set ?seg. \<not> is_terminator c"
  proof
    fix c assume "c \<in> set ?seg"
    then have c: "c \<in> set (takeWhile ?P (rev ?pre))" by simp
    then have "?P c" by (rule set_takeWhileD [THEN conjunct2])
    moreover from c have "c \<in> set (rev ?pre)" by (rule set_takeWhileD [THEN conjunct1])
    then have "c \<in> set ?pre" by simp
    then have "c \<noteq> QMARK" by (rule inpre)
    ultimately show "\<not> is_terminator c" by (simp add: is_terminator_def)
  qed
  have "match_question (?a @ ?seg @ QMARK # rest) = Some (?seg @ [QMARK])"
    using 1 2 3 by (rule match_question_decomp)
  then show ?thesis by (simp only: t first_question_def)
qed

lemma match_question_example:
  "match_question (js ''...great! How are you feeling now?'') = Some (js '' How are you feeling now?'')"
  by (simp add: js_def match_here_def is_terminator_def QMARK_def DOT_def BANG_def)

text \<open>
  Claim C6. On a text that contains a \<open>?\<close>, \<open>extractQuestionFromText\<close> returns the first
  substring ending in \<open>?\<close> (\<open>first_question\<close>) with its leading non-letters dropped, its
  quote characters removed, and trimmed; on a text without \<open>?\<close> and on an absent text it
  returns the default question.
\<close>

theorem extractQuestionFromText_first_question:
  "(QMARK \<in> set t \<longrightarrow>
      extractQuestionFromText (Some t) =
        trim (filter (\<lambda>c. c \<noteq> DQUOTE \<and> c \<noteq> SQUOTE)
          (dropWhile (\<lambda>c. \<not> is_letter c) (first_question t))))
   \<and> (QMARK \<notin> set t \<longrightarrow> extractQuestionFromText (Some t) = DEFAULT_QUESTION)
   \<and> extractQuestionFromText None = DEFAULT_QUESTION"
proof -
  have a: "QMARK \<in> set t \<longrightarrow>
      extractQuestionFromText (Some t) =
        trim (filter (\<lambda>c. c \<noteq> DQUOTE \<and> c \<noteq> SQUOTE)
          (dropWhile (\<lambda>c. \<not> is_letter c) (first_question t)))"
  proof
    assume q: "QMARK \<in> set t"
    then have "t \<noteq> []" by auto
    with match_question_first [OF q] show "extractQuestionFromText (Some t) =
        trim (filter (\<lambda>c. c \<noteq> DQUOTE \<and> c \<noteq> SQUOTE)
          (dropWhile (\<lambda>c. \<not> is_letter c) (first_question t)))"
      by (simp add: extractQuestionFromText_def)
  qed
  have b: "QMARK \<notin> set t \<longrightarrow> extractQuestionFromText (Some t) = DEFAULT_QUESTION"
    by (simp add: extractQuestionFromText_def match_question_none)
  have c: "extractQuestionFromText None = DEFAULT_QUESTION"
    by (simp add: extractQuestionFromText_def)
  from a b c show ?thesis by blast
qed

theorem extractQuestionFromText_first_question_witness:
  "QMARK \<in> set (js ''...great! How are you feeling now?'')
   \<and> extractQuestionFromText (Some (js ''...great! How are you feeling now?''))
       = js ''How are you feeling now?''
   \<and> QMARK \<notin> set (js ''Thank you for writing.'')
   \<and> extractQuestionFromText (Some (js ''Thank you for writing.'')) = DEFAULT_QUESTION"
  using extractQuestionFromText_first_question [of "js ''...great! How are you feeling now?''"]
    extractQuestionFromText_first_question [of "js ''Thank you for writing.''"]
  by (simp add: js_def QMARK_def DOT_def BANG_def DQUOTE_def SQUOTE_def first_question_def
      is_letter_def trim_def is_ws_def)

end
